theory Spec2Isabelle
  imports Main "HOL-Library.Word"
begin

section \<open>JavaScript strings\<close>

text \<open>
  A JavaScript string is a sequence of UTF-16 code units, and \<open>includes\<close>, \<open>indexOf\<close>,
  \<open>startsWith\<close> and \<open>substring\<close> count code units. The ASCII literals of the source are
  written with \<open>js\<close>; the Japanese message literals are spelled out as code units, with
  an English gloss beside each.
\<close>

type_synonym jsstring = "16 word list"

definition js :: "string \<Rightarrow> jsstring" where
  "js s = map (\<lambda>c. of_nat (of_char c)) s"

fun startsWith :: "'a list \<Rightarrow> 'a list \<Rightarrow> bool" where
  "startsWith s [] = True"
| "startsWith [] (p # ps) = False"
| "startsWith (c # cs) (p # ps) = (c = p \<and> startsWith cs ps)"

text \<open>
  \<open>s.indexOf(p)\<close>: the index of the first occurrence of \<open>p\<close> in \<open>s\<close>, or \<open>-1\<close>.
  \<open>indexOfFrom s p i\<close> searches the suffix \<open>s\<close> that starts at index \<open>i\<close>.
\<close>

fun indexOfFrom :: "'a list \<Rightarrow> 'a list \<Rightarrow> nat \<Rightarrow> int" where
  "indexOfFrom [] p i = (if p = [] then int i else - 1)"
| "indexOfFrom (c # cs) p i =
     (if startsWith (c # cs) p then int i else indexOfFrom cs p (Suc i))"

definition indexOf :: "'a list \<Rightarrow> 'a list \<Rightarrow> int" where
  "indexOf s p = indexOfFrom s p 0"

definition includes_js :: "'a list \<Rightarrow> 'a list \<Rightarrow> bool" where
  "includes_js s p = (indexOf s p \<noteq> - 1)"

text \<open>\<open>s.substring(start)\<close> clamps \<open>start\<close> to \<open>0 .. s.length\<close>.\<close>

definition substring :: "'a list \<Rightarrow> int \<Rightarrow> 'a list" where
  "substring s start = drop (nat (max 0 start)) s"

section \<open>Message literals\<close>

definition walletNotConnectedMsg :: jsstring where
  \<comment> \<open>Wallet is not connected.\<close>
  "walletNotConnectedMsg =
     [0x30A6, 0x30A9, 0x30EC, 0x30C3, 0x30C8, 0x304C, 0x63A5, 0x7D9A, 0x3055, 0x308C, 0x3066,
      0x3044, 0x307E, 0x305B, 0x3093, 0x3002]"

definition requiredFieldsMsg :: jsstring where
  \<comment> \<open>Task PDA and recipient address are required.\<close>
  "requiredFieldsMsg =
     [0x30BF, 0x30B9, 0x30AF] @ js ''PDA'' @ [0x3068, 0x53D7, 0x53D6, 0x4EBA, 0x30A2, 0x30C9,
      0x30EC, 0x30B9, 0x306F, 0x5FC5, 0x9808, 0x3067, 0x3059, 0x3002]"

definition sameAddressMsg :: jsstring where
  \<comment> \<open>The recipient cannot be the same address as the task creator.\<close>
  "sameAddressMsg =
     [0x53D7, 0x53D6, 0x4EBA, 0x306F, 0x30BF, 0x30B9, 0x30AF, 0x4F5C, 0x6210, 0x8005, 0x3068,
      0x540C, 0x3058, 0x30A2, 0x30C9, 0x30EC, 0x30B9, 0x306B, 0x3059, 0x308B, 0x3053, 0x3068,
      0x306F, 0x3067, 0x304D, 0x307E, 0x305B, 0x3093, 0x3002]"

definition invalidKeyPrefix :: jsstring where
  \<comment> \<open>The public key is malformed: \<close>
  "invalidKeyPrefix =
     [0x516C, 0x958B, 0x9375, 0x306E, 0x5F62, 0x5F0F, 0x304C, 0x6B63, 0x3057, 0x304F, 0x3042,
      0x308A, 0x307E, 0x305B, 0x3093] @ js '': ''"

definition invalidTaskPDAPrefix :: jsstring where
  \<comment> \<open>The task account PDA is malformed: \<close>
  "invalidTaskPDAPrefix =
     [0x30BF, 0x30B9, 0x30AF, 0x30A2, 0x30AB, 0x30A6, 0x30F3, 0x30C8] @ js ''PDA'' @ [0x306E,
      0x5F62, 0x5F0F, 0x304C, 0x6B63, 0x3057, 0x304F, 0x3042, 0x308A, 0x307E, 0x305B, 0x3093]
      @ js '': ''"

definition txFailedPrefix :: jsstring where
  \<comment> \<open>The transaction failed: \<close>
  "txFailedPrefix =
     [0x30C8, 0x30E9, 0x30F3, 0x30B6, 0x30AF, 0x30B7, 0x30E7, 0x30F3, 0x304C, 0x5931, 0x6557,
      0x3057, 0x307E, 0x3057, 0x305F] @ js '': ''"

definition unknownErrorMsg :: jsstring where
  \<comment> \<open>An unknown error occurred.\<close>
  "unknownErrorMsg =
     [0x4E0D, 0x660E, 0x306A, 0x30A8, 0x30E9, 0x30FC, 0x304C, 0x767A, 0x751F, 0x3057, 0x307E,
      0x3057, 0x305F, 0x3002]"

definition programFailedMsg :: jsstring where
  \<comment> \<open>Program execution failed.\<close>
  "programFailedMsg =
     [0x30D7, 0x30ED, 0x30B0, 0x30E9, 0x30E0, 0x306E, 0x5B9F, 0x884C, 0x306B, 0x5931, 0x6557,
      0x3057, 0x307E, 0x3057, 0x305F, 0x3002]"

definition acceptNotTaskConsignerMsg :: jsstring where
  \<comment> \<open>No permission to accept the task (NotTaskConsigner).\<close>
  "acceptNotTaskConsignerMsg =
     [0x30BF, 0x30B9, 0x30AF, 0x306E, 0x627F, 0x8A8D, 0x6A29, 0x9650, 0x304C, 0x3042, 0x308A,
      0x307E, 0x305B, 0x3093] @ js '' (NotTaskConsigner)'' @ [0x3002]"

definition acceptTaskNotOpenMsg :: jsstring where
  \<comment> \<open>The task is not in an acceptable state (TaskNotOpen).\<close>
  "acceptTaskNotOpenMsg =
     [0x30BF, 0x30B9, 0x30AF, 0x304C, 0x627F, 0x8A8D, 0x53EF, 0x80FD, 0x306A, 0x72B6, 0x614B,
      0x3067, 0x306F, 0x3042, 0x308A, 0x307E, 0x305B, 0x3093] @ js '' (TaskNotOpen)'' @
      [0x3002]"

definition taskExpiredMsg :: jsstring where
  \<comment> \<open>The task has expired (TaskExpired).\<close>
  "taskExpiredMsg =
     [0x30BF, 0x30B9, 0x30AF, 0x306F, 0x671F, 0x9650, 0x5207, 0x308C, 0x3067, 0x3059] @
      js '' (TaskExpired)'' @ [0x3002]"

definition invalidRecipientMsg :: jsstring where
  \<comment> \<open>Invalid recipient address (InvalidRecipient).\<close>
  "invalidRecipientMsg =
     [0x7121, 0x52B9, 0x306A, 0x53D7, 0x53D6, 0x4EBA, 0x30A2, 0x30C9, 0x30EC, 0x30B9, 0x3067,
      0x3059] @ js '' (InvalidRecipient)'' @ [0x3002]"

definition rejectNotTaskConsignerMsg :: jsstring where
  \<comment> \<open>No permission to reject the task (NotTaskConsigner).\<close>
  "rejectNotTaskConsignerMsg =
     [0x30BF, 0x30B9, 0x30AF, 0x306E, 0x62D2, 0x5426, 0x6A29, 0x9650, 0x304C, 0x3042, 0x308A,
      0x307E, 0x305B, 0x3093] @ js '' (NotTaskConsigner)'' @ [0x3002]"

definition rejectTaskNotOpenMsg :: jsstring where
  \<comment> \<open>The task is not in a rejectable state (TaskNotOpen).\<close>
  "rejectTaskNotOpenMsg =
     [0x30BF, 0x30B9, 0x30AF, 0x304C, 0x62D2, 0x5426, 0x53EF, 0x80FD, 0x306A, 0x72B6, 0x614B,
      0x3067, 0x306F, 0x3042, 0x308A, 0x307E, 0x305B, 0x3093] @ js '' (TaskNotOpen)'' @
      [0x3002]"

definition reclaimNotConsignerMsg :: jsstring where
  \<comment> \<open>No permission to reclaim the task funds (NotConsigner).\<close>
  "reclaimNotConsignerMsg =
     [0x30BF, 0x30B9, 0x30AF, 0x306E, 0x8CC7, 0x91D1, 0x56DE, 0x53CE, 0x6A29, 0x9650, 0x304C,
      0x3042, 0x308A, 0x307E, 0x305B, 0x3093] @ js '' (NotConsigner)'' @ [0x3002]"

definition cannotReclaimFundsMsg :: jsstring where
  \<comment> \<open>Funds cannot be reclaimed yet (CannotReclaimFunds). Check that the task has expired or the post-rejection penalty period is over.\<close>
  "cannotReclaimFundsMsg =
     [0x307E, 0x3060, 0x8CC7, 0x91D1, 0x3092, 0x56DE, 0x53CE, 0x3067, 0x304D, 0x307E, 0x305B,
      0x3093] @ js '' (CannotReclaimFunds)'' @ [0x3002, 0x30BF, 0x30B9, 0x30AF, 0x304C,
      0x671F, 0x9650, 0x5207, 0x308C, 0x307E, 0x305F, 0x306F, 0x62D2, 0x5426, 0x5F8C, 0x306E,
      0x30DA, 0x30CA, 0x30EB, 0x30C6, 0x30A3, 0x671F, 0x9593, 0x304C, 0x7D42, 0x4E86, 0x3057,
      0x3066, 0x3044, 0x308B, 0x304B, 0x78BA, 0x8A8D, 0x3057, 0x3066, 0x304F, 0x3060, 0x3055,
      0x3044, 0x3002]"

definition denialLockupActiveMsg :: jsstring where
  \<comment> \<open>The post-rejection lock-up is active. Funds cannot be reclaimed yet (DenialLockupActive).\<close>
  "denialLockupActiveMsg =
     [0x62D2, 0x5426, 0x5F8C, 0x306E, 0x30ED, 0x30C3, 0x30AF, 0x30A2, 0x30C3, 0x30D7, 0x671F,
      0x9593, 0x304C, 0x6709, 0x52B9, 0x3067, 0x3059, 0x3002, 0x307E, 0x3060, 0x8CC7, 0x91D1,
      0x3092, 0x56DE, 0x53CE, 0x3067, 0x304D, 0x307E, 0x305B, 0x3093] @
      js '' (DenialLockupActive)'' @ [0x3002]"

definition sunpathErrorMarker :: jsstring where
  "sunpathErrorMarker = js ''SunpathError::''"

definition errorMarker :: jsstring where
  "errorMarker = js ''Error:''"

definition programFailedMarker :: jsstring where
  "programFailedMarker = js ''Program failed to complete''"

section \<open>Thrown values and the error translator\<close>

text \<open>
  The \<open>catch (error: any)\<close> blocks read two properties of the thrown value:
  \<open>error.message\<close> and \<open>error.logs\<close>. Either may be undefined (\<open>None\<close>). An array of
  log lines is truthy even when empty. The thrown value is taken to be an object whose
  \<open>message\<close>, when defined, is a string and whose \<open>logs\<close>, when defined, is an array of
  strings, as the wallet and RPC libraries throw them.
\<close>

record thrown =
  message :: "jsstring option"
  logs :: "jsstring list option"

definition newError :: "jsstring \<Rightarrow> thrown" where
  "newError m = \<lparr>message = Some m, logs = None\<rparr>"

text \<open>
  The \<open>if\<close> / \<open>else if\<close> chains applied to the substring after the marker. A tag that
  matches no branch leaves \<open>errorMessage\<close> as that substring.
\<close>

definition acceptTags :: "jsstring \<Rightarrow> jsstring" where
  "acceptTags errorMessage =
     (if startsWith errorMessage (js ''NotTaskConsigner'') then acceptNotTaskConsignerMsg
      else if startsWith errorMessage (js ''TaskNotOpen'') then acceptTaskNotOpenMsg
      else if startsWith errorMessage (js ''TaskExpired'') then taskExpiredMsg
      else if startsWith errorMessage (js ''InvalidRecipient'') then invalidRecipientMsg
      else errorMessage)"

definition rejectTags :: "jsstring \<Rightarrow> jsstring" where
  "rejectTags errorMessage =
     (if startsWith errorMessage (js ''NotTaskConsigner'') then rejectNotTaskConsignerMsg
      else if startsWith errorMessage (js ''TaskNotOpen'') then rejectTaskNotOpenMsg
      else if startsWith errorMessage (js ''TaskExpired'') then taskExpiredMsg
      else errorMessage)"

definition reclaimTags :: "jsstring \<Rightarrow> jsstring" where
  "reclaimTags errorMessage =
     (if startsWith errorMessage (js ''NotConsigner'') then reclaimNotConsignerMsg
      else if startsWith errorMessage (js ''CannotReclaimFunds'') then cannotReclaimFundsMsg
      else if startsWith errorMessage (js ''DenialLockupActive'') then denialLockupActiveMsg
      else errorMessage)"

text \<open>
  The \<open>for (const log of error.logs)\<close> loop, identical in the three components up to the
  tag chain \<open>tags\<close>. The second argument is the current value of \<open>errorMessage\<close>. Only
  the marker branch ends with \<open>break\<close>; the other two branches assign and go on.
\<close>

fun scanLogs :: "(jsstring \<Rightarrow> jsstring) \<Rightarrow> jsstring \<Rightarrow> jsstring list \<Rightarrow> jsstring" where
  "scanLogs tags errorMessage [] = errorMessage"
| "scanLogs tags errorMessage (log # rest) =
     (if includes_js log sunpathErrorMarker then
        tags (substring log (indexOf log sunpathErrorMarker + int (length sunpathErrorMarker)))
      else if includes_js log errorMarker then scanLogs tags log rest
      else if includes_js log programFailedMarker then scanLogs tags programFailedMsg rest
      else scanLogs tags errorMessage rest)"

text \<open>
  \<open>error.message || default\<close>: the default replaces an undefined and an empty message.
\<close>

definition initialMessage :: "thrown \<Rightarrow> jsstring" where
  "initialMessage error =
     (case message error of
        None \<Rightarrow> unknownErrorMsg
      | Some m \<Rightarrow> if m = [] then unknownErrorMsg else m)"

definition translateError :: "(jsstring \<Rightarrow> jsstring) \<Rightarrow> thrown \<Rightarrow> jsstring" where
  "translateError tags error =
     (case logs error of
        None \<Rightarrow> initialMessage error
      | Some ls \<Rightarrow> scanLogs tags (initialMessage error) ls)"

section \<open>Keys, seeds and the ambient environment\<close>

type_synonym byte = "8 word"

text \<open>A \<open>PublicKey\<close> is identified by its 32-byte buffer; \<open>equals\<close> compares the keys.\<close>

datatype PublicKey = PublicKey (toBuffer: "byte list")

type_synonym signature = jsstring

datatype commitment = Confirmed | Finalized

text \<open>\<open>Buffer.from\<close> of an ASCII literal: one byte per character.\<close>

definition Buffer_from :: "string \<Rightarrow> byte list" where
  "Buffer_from s = map (\<lambda>c. of_nat (of_char c)) s"

text \<open>\<open>SystemProgram.programId\<close>: the all-zero key.\<close>

definition systemProgramId :: PublicKey where
  "systemProgramId = PublicKey (replicate 32 0)"

text \<open>
  \<open>useWallet()\<close>: the connected key, if any, and whether the wallet offers
  \<open>signTransaction\<close>.
\<close>

record wallet =
  publicKey :: "PublicKey option"
  signTransaction :: bool

record AnchorProvider =
  providerKey :: PublicKey
  preflightCommitment :: commitment

datatype instruction = AcceptTask PublicKey | RejectTask | ReclaimTaskFunds

record request =
  instruction :: instruction
  accounts :: "(string \<times> PublicKey) list"

text \<open>
  What a run of a handler does, in order: calls of the two callbacks, of \<open>setIsLoading\<close>,
  of \<open>console.error\<close>, and the two network calls.
\<close>

datatype event =
    OnError jsstring
  | OnSuccess signature
  | SetIsLoading bool
  | ConsoleError
  | Rpc request
  | ConfirmTransaction signature commitment

text \<open>
  Everything a handler calls that is not in the components themselves: the key parser
  \<open>new PublicKey(string)\<close> and the address deriver of the web3 library, the program
  identity, the two network calls (each either throws or returns; a confirmation returns
  \<open>value.err\<close>, \<open>None\<close> for \<open>null\<close>, otherwise the text the template literal renders),
  and what the caller's success callback throws, if anything.
\<close>

record env =
  newPublicKey :: "jsstring \<Rightarrow> thrown + PublicKey"
  findProgramAddressSync :: "byte list list \<Rightarrow> PublicKey \<Rightarrow> thrown + (PublicKey \<times> nat)"
  PROGRAM_ID :: PublicKey
  rpc :: "request \<Rightarrow> thrown + signature"
  confirmTransaction :: "signature \<Rightarrow> commitment \<Rightarrow> thrown + jsstring option"
  successCallbackThrows :: "signature \<Rightarrow> thrown option"

section \<open>Provider acquirers\<close>

text \<open>
  \<open>getProvider\<close> of the three button components: reports to \<open>onError\<close> and returns
  \<open>null\<close> unless both the key and the signing capability are there.
\<close>

definition getProvider :: "wallet \<Rightarrow> event list \<times> AnchorProvider option" where
  "getProvider w =
     (case publicKey w of
        None \<Rightarrow> ([OnError walletNotConnectedMsg], None)
      | Some pk \<Rightarrow>
          if \<not> signTransaction w then ([OnError walletNotConnectedMsg], None)
          else ([], Some \<lparr>providerKey = pk, preflightCommitment = Confirmed\<rparr>))"

text \<open>\<open>getProvider\<close> of the hook \<open>useSolanaProgram\<close>: it has no callback to report to.\<close>

definition useSolanaProgram_getProvider :: "wallet \<Rightarrow> event list \<times> AnchorProvider option" where
  "useSolanaProgram_getProvider w =
     (case publicKey w of
        None \<Rightarrow> ([], None)
      | Some pk \<Rightarrow>
          if \<not> signTransaction w then ([], None)
          else ([], Some \<lparr>providerKey = pk, preflightCommitment = Confirmed\<rparr>))"

section \<open>The instruction invokers\<close>

text \<open>\<open>${e.message}\<close> inside a template literal.\<close>

definition template :: "jsstring option \<Rightarrow> jsstring" where
  "template m = (case m of None \<Rightarrow> js ''undefined'' | Some s \<Rightarrow> s)"

text \<open>
  The part the three \<open>try\<close> blocks share from \<open>.rpc()\<close> on: submit, await confirmation
  at \<open>finalized\<close>, throw when \<open>confirmation.value.err\<close> is set, else call the success
  callback. The result is the events so far and the exception that leaves the block.
\<close>

definition submitAndConfirm :: "env \<Rightarrow> request \<Rightarrow> event list \<times> thrown option" where
  "submitAndConfirm e req =
     (case rpc e req of
        Inl err \<Rightarrow> ([Rpc req], Some err)
      | Inr sig \<Rightarrow>
          (case confirmTransaction e sig Finalized of
             Inl err \<Rightarrow> ([Rpc req, ConfirmTransaction sig Finalized], Some err)
           | Inr (Some err) \<Rightarrow>
               ([Rpc req, ConfirmTransaction sig Finalized],
                Some (newError (txFailedPrefix @ err)))
           | Inr None \<Rightarrow>
               ([Rpc req, ConfirmTransaction sig Finalized, OnSuccess sig],
                successCallbackThrows e sig)))"

text \<open>The \<open>catch\<close> block: log, translate, report.\<close>

definition catchBlock :: "(jsstring \<Rightarrow> jsstring) \<Rightarrow> thrown option \<Rightarrow> event list" where
  "catchBlock tags exc =
     (case exc of
        None \<Rightarrow> []
      | Some error \<Rightarrow> [ConsoleError, OnError (translateError tags error)])"

text \<open>\<open>try { body } catch { ... } finally { setIsLoading(false) }\<close>, after \<open>setIsLoading(true)\<close>.\<close>

definition guarded :: "(jsstring \<Rightarrow> jsstring) \<Rightarrow> event list \<times> thrown option \<Rightarrow> event list" where
  "guarded tags body =
     [SetIsLoading True] @ fst body @ catchBlock tags (snd body) @ [SetIsLoading False]"

definition configSeeds :: "byte list list" where
  "configSeeds = [Buffer_from ''config_v2'']"

definition adminCounterSeeds :: "PublicKey \<Rightarrow> byte list list" where
  "adminCounterSeeds consigner = [Buffer_from ''admin_counter'', toBuffer consigner]"

subsection \<open>AcceptTaskButton\<close>

record accept_props =
  taskAccountPDAString :: jsstring
  recipientPublicKeyString :: jsstring

text \<open>The first \<open>try\<close> block of \<open>handleAcceptTask\<close>; \<open>Inl\<close> is what its \<open>catch\<close> receives.\<close>

definition acceptValidate :: "env \<Rightarrow> PublicKey \<Rightarrow> accept_props \<Rightarrow> thrown + (PublicKey \<times> PublicKey)" where
  "acceptValidate e pk props =
     (if taskAccountPDAString props = [] \<or> recipientPublicKeyString props = []
      then Inl (newError requiredFieldsMsg)
      else
        (case newPublicKey e (taskAccountPDAString props) of
           Inl err \<Rightarrow> Inl err
         | Inr taskAccountPDA \<Rightarrow>
             (case newPublicKey e (recipientPublicKeyString props) of
                Inl err \<Rightarrow> Inl err
              | Inr recipientPublicKey \<Rightarrow>
                  if recipientPublicKey = pk then Inl (newError sameAddressMsg)
                  else Inr (taskAccountPDA, recipientPublicKey))))"

text \<open>
  The second \<open>try\<close> block up to \<open>.rpc()\<close>: the two derivations, either of which may
  throw, and the request with its named accounts. Constructing the \<open>Program\<close> object
  from the interface definition is taken not to throw.
\<close>

definition acceptTry :: "env \<Rightarrow> PublicKey \<Rightarrow> PublicKey \<Rightarrow> PublicKey \<Rightarrow> event list \<times> thrown option" where
  "acceptTry e pk taskAccountPDA recipientPublicKey =
     (case findProgramAddressSync e configSeeds (PROGRAM_ID e) of
        Inl err \<Rightarrow> ([], Some err)
      | Inr (configPDA, _) \<Rightarrow>
          (case findProgramAddressSync e (adminCounterSeeds pk) (PROGRAM_ID e) of
             Inl err \<Rightarrow> ([], Some err)
           | Inr (adminActionCounterPDA, _) \<Rightarrow>
               submitAndConfirm e
                 \<lparr>instruction = AcceptTask recipientPublicKey,
                  accounts =
                    [(''taskAccount'', taskAccountPDA),
                     (''consignerWallet'', pk),
                     (''recipientAccount'', recipientPublicKey),
                     (''config'', configPDA),
                     (''adminActionCounter'', adminActionCounterPDA),
                     (''systemProgram'', systemProgramId)]\<rparr>))"

definition handleAcceptTask :: "env \<Rightarrow> wallet \<Rightarrow> accept_props \<Rightarrow> event list" where
  "handleAcceptTask e w props =
     (case getProvider w of (evs, provider) \<Rightarrow>
        (case (provider, publicKey w) of
           (Some _, Some pk) \<Rightarrow>
             (case acceptValidate e pk props of
                Inl err \<Rightarrow> evs @ [OnError (invalidKeyPrefix @ template (message err))]
              | Inr (taskAccountPDA, recipientPublicKey) \<Rightarrow>
                  evs @ guarded acceptTags (acceptTry e pk taskAccountPDA recipientPublicKey))
         | (_, None) \<Rightarrow> evs @ [OnError walletNotConnectedMsg]
         | (None, Some _) \<Rightarrow> evs))"

text \<open>The \<open>disabled\<close> attribute of the button; a disabled button dispatches no click.\<close>

definition acceptDisabled :: "wallet \<Rightarrow> accept_props \<Rightarrow> bool \<Rightarrow> bool" where
  "acceptDisabled w props isLoading =
     (publicKey w = None \<or> isLoading \<or> taskAccountPDAString props = []
      \<or> recipientPublicKeyString props = [])"

definition acceptClick :: "env \<Rightarrow> wallet \<Rightarrow> accept_props \<Rightarrow> bool \<Rightarrow> event list" where
  "acceptClick e w props isLoading =
     (if acceptDisabled w props isLoading then [] else handleAcceptTask e w props)"

subsection \<open>RejectTaskButton and ReclaimTaskFundsButton\<close>

text \<open>
  Both handlers validate with \<open>new PublicKey(taskAccountPDAString)\<close> alone; the reclaim
  instruction takes no admin-action counter.
\<close>

definition rejectTry :: "env \<Rightarrow> PublicKey \<Rightarrow> PublicKey \<Rightarrow> event list \<times> thrown option" where
  "rejectTry e pk taskAccountPDA =
     (case findProgramAddressSync e configSeeds (PROGRAM_ID e) of
        Inl err \<Rightarrow> ([], Some err)
      | Inr (configPDA, _) \<Rightarrow>
          (case findProgramAddressSync e (adminCounterSeeds pk) (PROGRAM_ID e) of
             Inl err \<Rightarrow> ([], Some err)
           | Inr (adminActionCounterPDA, _) \<Rightarrow>
               submitAndConfirm e
                 \<lparr>instruction = RejectTask,
                  accounts =
                    [(''taskAccount'', taskAccountPDA),
                     (''consignerWallet'', pk),
                     (''config'', configPDA),
                     (''adminActionCounter'', adminActionCounterPDA),
                     (''systemProgram'', systemProgramId)]\<rparr>))"

definition handleRejectTask :: "env \<Rightarrow> wallet \<Rightarrow> jsstring \<Rightarrow> event list" where
  "handleRejectTask e w taskPDAString =
     (case getProvider w of (evs, provider) \<Rightarrow>
        (case (provider, publicKey w) of
           (Some _, Some pk) \<Rightarrow>
             (case newPublicKey e taskPDAString of
                Inl err \<Rightarrow> evs @ [OnError (invalidTaskPDAPrefix @ template (message err))]
              | Inr taskAccountPDA \<Rightarrow> evs @ guarded rejectTags (rejectTry e pk taskAccountPDA))
         | (_, None) \<Rightarrow> evs @ [OnError walletNotConnectedMsg]
         | (None, Some _) \<Rightarrow> evs))"

definition reclaimTry :: "env \<Rightarrow> PublicKey \<Rightarrow> PublicKey \<Rightarrow> event list \<times> thrown option" where
  "reclaimTry e pk taskAccountPDA =
     (case findProgramAddressSync e configSeeds (PROGRAM_ID e) of
        Inl err \<Rightarrow> ([], Some err)
      | Inr (configPDA, _) \<Rightarrow>
          submitAndConfirm e
            \<lparr>instruction = ReclaimTaskFunds,
             accounts =
               [(''taskAccount'', taskAccountPDA),
                (''consignerWallet'', pk),
                (''config'', configPDA),
                (''systemProgram'', systemProgramId)]\<rparr>)"

definition handleReclaimFunds :: "env \<Rightarrow> wallet \<Rightarrow> jsstring \<Rightarrow> event list" where
  "handleReclaimFunds e w taskPDAString =
     (case getProvider w of (evs, provider) \<Rightarrow>
        (case (provider, publicKey w) of
           (Some _, Some pk) \<Rightarrow>
             (case newPublicKey e taskPDAString of
                Inl err \<Rightarrow> evs @ [OnError (invalidTaskPDAPrefix @ template (message err))]
              | Inr taskAccountPDA \<Rightarrow> evs @ guarded reclaimTags (reclaimTry e pk taskAccountPDA))
         | (_, None) \<Rightarrow> evs @ [OnError walletNotConnectedMsg]
         | (None, Some _) \<Rightarrow> evs))"

text \<open>Both buttons are disabled without a key, while loading, and without a task address.\<close>

definition taskButtonDisabled :: "wallet \<Rightarrow> jsstring \<Rightarrow> bool \<Rightarrow> bool" where
  "taskButtonDisabled w taskPDAString isLoading =
     (publicKey w = None \<or> isLoading \<or> taskPDAString = [])"

definition rejectClick :: "env \<Rightarrow> wallet \<Rightarrow> jsstring \<Rightarrow> bool \<Rightarrow> event list" where
  "rejectClick e w taskPDAString isLoading =
     (if taskButtonDisabled w taskPDAString isLoading then []
      else handleRejectTask e w taskPDAString)"

definition reclaimClick :: "env \<Rightarrow> wallet \<Rightarrow> jsstring \<Rightarrow> bool \<Rightarrow> event list" where
  "reclaimClick e w taskPDAString isLoading =
     (if taskButtonDisabled w taskPDAString isLoading then []
      else handleReclaimFunds e w taskPDAString)"

section \<open>Component state read off a run\<close>

text \<open>
  \<open>const [isLoading, setIsLoading] = useState(false)\<close>: the value of \<open>isLoading\<close> after
  the events of a run, starting from \<open>b\<close>.
\<close>

fun loadingAfter :: "bool \<Rightarrow> event list \<Rightarrow> bool" where
  "loadingAfter b [] = b"
| "loadingAfter b (SetIsLoading v # es) = loadingAfter v es"
| "loadingAfter b (ev # es) = loadingAfter b es"

fun isOnError :: "event \<Rightarrow> bool" where
  "isOnError (OnError m) = True"
| "isOnError ev = False"



fun isNetwork :: "event \<Rightarrow> bool" where
  "isNetwork (Rpc req) = True"
| "isNetwork (ConfirmTransaction s c) = True"
| "isNetwork ev = False"

section \<open>The test harness\<close>

subsection \<open>Task account seeds\<close>

text \<open>
  \<open>taskId.toArrayLike(Buffer, "le", 8)\<close> of the big-number library: the eight base-256
  digits of a non-negative integer, least significant first; it throws when the number
  needs more than eight bytes.
\<close>

fun leBytes :: "nat \<Rightarrow> nat \<Rightarrow> byte list" where
  "leBytes 0 v = []"
| "leBytes (Suc n) v = of_nat (v mod 256) # leBytes n (v div 256)"

definition toArrayLike_le8 :: "nat \<Rightarrow> thrown + byte list" where
  "toArrayLike_le8 v =
     (if v < 256 ^ 8 then Inr (leBytes 8 v)
      else Inl (newError (js ''byte array longer than desired length'')))"

definition taskAccountSeeds :: "PublicKey \<Rightarrow> nat \<Rightarrow> thrown + byte list list" where
  "taskAccountSeeds consigner taskId =
     (case toArrayLike_le8 taskId of
        Inl err \<Rightarrow> Inl err
      | Inr taskIdLE8 \<Rightarrow> Inr [Buffer_from ''task_account'', toBuffer consigner, taskIdLE8])"

text \<open>The value of a little-endian byte sequence.\<close>

fun leValue :: "byte list \<Rightarrow> nat" where
  "leValue [] = 0"
| "leValue (b # bs) = unat b + 256 * leValue bs"

subsection \<open>The initialization test\<close>

text \<open>
  What the test's \<open>catch (error: unknown)\<close> reads of a caught value: whether it is an
  \<open>Error\<close>, and its \<open>toString()\<close>.
\<close>

record caught =
  instanceofError :: bool
  toString :: jsstring

record ProgramConfig =
  admin :: PublicKey

record initialize_call =
  argAdmin :: PublicKey
  argTreasury :: PublicKey
  argTokenMint :: PublicKey
  argMinimumReward :: nat
  argFeePercentage :: nat
  argPenaltyDuration :: nat
  argPatrollerAmount :: nat
  accConfig :: PublicKey
  accAdmin :: PublicKey
  accSystemProgram :: PublicKey

record test_env =
  adminPublicKey :: PublicKey
  daoTreasuryAddress :: PublicKey
  governanceTokenMint :: PublicKey
  adminSigner :: PublicKey
  initializeProgram :: "initialize_call \<Rightarrow> caught + signature"
  fetchProgramConfig :: "PublicKey \<Rightarrow> caught + ProgramConfig"
  toBase58 :: "PublicKey \<Rightarrow> jsstring"

datatype test_event =
    Initialize initialize_call
  | LogSuccess signature
  | WarnAlreadyInitialized
  | FetchConfig PublicKey
  | LogError

datatype outcome = Passes | Throws caught | AssertionFails

definition initializeCall :: "test_env \<Rightarrow> PublicKey \<Rightarrow> initialize_call" where
  "initializeCall t configKey =
     \<lparr>argAdmin = adminPublicKey t, argTreasury = daoTreasuryAddress t,
      argTokenMint = governanceTokenMint t, argMinimumReward = 10000000,
      argFeePercentage = 5, argPenaltyDuration = 1, argPatrollerAmount = 0,
      accConfig = configKey, accAdmin = adminSigner t, accSystemProgram = systemProgramId\<rparr>"

text \<open>The condition of the \<open>if\<close> inside the test's \<open>catch\<close>.\<close>

definition alreadyInitialized :: "caught \<Rightarrow> bool" where
  "alreadyInitialized error =
     (instanceofError error \<and>
      (includes_js (toString error) (js ''custom program error: 0x0'') \<or>
       includes_js (toString error) (js ''Account already in use'')))"

text \<open>
  The body of the test "Is initialized! (or verifies existing initialization)": the
  events in order, and how the test ends. An exception of \<open>fetch\<close> or of \<open>expect\<close>
  inside the \<open>catch\<close> block leaves the test.
\<close>

definition initializeTest :: "test_env \<Rightarrow> PublicKey \<Rightarrow> test_event list \<times> outcome" where
  "initializeTest t configKey =
     (case initializeProgram t (initializeCall t configKey) of
        Inr txSignature \<Rightarrow> ([Initialize (initializeCall t configKey), LogSuccess txSignature], Passes)
      | Inl error \<Rightarrow>
          if alreadyInitialized error then
            (case fetchProgramConfig t configKey of
               Inl err \<Rightarrow>
                 ([Initialize (initializeCall t configKey), WarnAlreadyInitialized,
                   FetchConfig configKey], Throws err)
             | Inr configAccount \<Rightarrow>
                 ([Initialize (initializeCall t configKey), WarnAlreadyInitialized,
                   FetchConfig configKey],
                  if toBase58 t (admin configAccount) = toBase58 t (adminPublicKey t)
                  then Passes else AssertionFails))
          else ([Initialize (initializeCall t configKey), LogError], Throws error))"

subsection \<open>The task creation test, up to its submission\<close>

text \<open>
  What the tests use besides the program's methods before \<open>createTask\<close> is submitted:
  the deriver of the web3 library and the program identity of the workspace, the
  consigner's key, the clock that supplies the task id, and two network reads.
\<close>

record create_env =
  deriveAddress :: "byte list list \<Rightarrow> PublicKey \<Rightarrow> thrown + (PublicKey \<times> nat)"
  workspaceProgramId :: PublicKey
  consignerKey :: PublicKey
  dateNow :: nat
  getBalance :: "PublicKey \<Rightarrow> thrown + nat"
  getMinimumBalanceForRentExemption :: "nat \<Rightarrow> thrown + nat"

record create_call =
  callTaskId :: nat
  callRewardAmount :: nat
  callDurationSeconds :: nat
  callTaskAccount :: PublicKey
  callConsigner :: PublicKey
  callConfig :: PublicKey
  callSystemProgram :: PublicKey

definition configPdaSeed :: "byte list" where
  "configPdaSeed = Buffer_from ''config_v2''"

text \<open>The first statement of the \<open>before\<close> hook: \<open>configKey\<close>, or what the deriver throws.\<close>

definition beforeConfigKey :: "create_env \<Rightarrow> thrown + PublicKey" where
  "beforeConfigKey t =
     (case deriveAddress t [configPdaSeed] (workspaceProgramId t) of
        Inl err \<Rightarrow> Inl err
      | Inr (configKey, _) \<Rightarrow> Inr configKey)"

text \<open>
  The test "Creates a task successfully" from its first line to the call of
  \<open>createTask(...).accounts(...).rpc()\<close>: the call it submits, or the exception that ends
  the test before, none of these statements standing inside the \<open>try\<close>.
\<close>

definition createTaskCall :: "create_env \<Rightarrow> PublicKey \<Rightarrow> thrown + create_call" where
  "createTaskCall t configKey =
     (case taskAccountSeeds (consignerKey t) (dateNow t) of
        Inl err \<Rightarrow> Inl err
      | Inr seeds \<Rightarrow>
          (case deriveAddress t seeds (workspaceProgramId t) of
             Inl err \<Rightarrow> Inl err
           | Inr (taskAccountKey, taskAccountBump) \<Rightarrow>
               (case getBalance t (consignerKey t) of
                  Inl err \<Rightarrow> Inl err
                | Inr initialConsignerBalance \<Rightarrow>
                    (case getMinimumBalanceForRentExemption t
                            (8 + (32 + 8 + 8 + 8 + 8 + 1 + 8 + (1 + 32) + (1 + 32) + 1)) of
                       Inl err \<Rightarrow> Inl err
                     | Inr taskAccountRent \<Rightarrow>
                         Inr \<lparr>callTaskId = dateNow t, callRewardAmount = 15000000,
                              callDurationSeconds = 3600, callTaskAccount = taskAccountKey,
                              callConsigner = consignerKey t, callConfig = configKey,
                              callSystemProgram = systemProgramId\<rparr>))))"

section \<open>The address deriver\<close>

text \<open>
  Modelled from the spec: the Address Deriver itself (\<open>PublicKey.findProgramAddressSync\<close>
  of the web3 library) is not among the source files; the components and the test only
  call it. The spec describes it as a deterministic, pure concatenation-and-hash scheme
  that, given a list of seed byte sequences and the program identity, produces a
  program-owned address, one "with no corresponding private key", and a disambiguation
  nonce. The hash \<open>H\<close> and the test \<open>K\<close> for a corresponding private key are parameters.
  A candidate address hashes the concatenated seeds, the one-byte nonce and the program
  identity; the nonce is searched downwards.
\<close>

definition candidate :: "(byte list \<Rightarrow> PublicKey) \<Rightarrow> byte list list \<Rightarrow> PublicKey \<Rightarrow> nat \<Rightarrow> PublicKey" where
  "candidate H seeds programId nonce = H (concat seeds @ [of_nat nonce] @ toBuffer programId)"

text \<open>
  One run of the search from nonce \<open>n\<close>, as a relation between the inputs and a result:
  either the candidate at \<open>n\<close> has no private key and is the result, or it has one and
  the search goes on below.
\<close>

inductive derives ::
  "(byte list \<Rightarrow> PublicKey) \<Rightarrow> (PublicKey \<Rightarrow> bool) \<Rightarrow> byte list list \<Rightarrow> PublicKey \<Rightarrow> nat
   \<Rightarrow> PublicKey \<times> nat \<Rightarrow> bool"
  for H K seeds programId where
  found: "\<not> K (candidate H seeds programId n)
          \<Longrightarrow> derives H K seeds programId n (candidate H seeds programId n, n)"
| lower: "K (candidate H seeds programId (Suc n)) \<Longrightarrow> derives H K seeds programId n r
          \<Longrightarrow> derives H K seeds programId (Suc n) r"

text \<open>The same search as a function; \<open>None\<close> when every nonce is exhausted.\<close>

fun deriveFrom ::
  "(byte list \<Rightarrow> PublicKey) \<Rightarrow> (PublicKey \<Rightarrow> bool) \<Rightarrow> byte list list \<Rightarrow> PublicKey \<Rightarrow> nat
   \<Rightarrow> (PublicKey \<times> nat) option" where
  "deriveFrom H K seeds programId 0 =
     (if K (candidate H seeds programId 0) then None
      else Some (candidate H seeds programId 0, 0))"
| "deriveFrom H K seeds programId (Suc n) =
     (if K (candidate H seeds programId (Suc n)) then deriveFrom H K seeds programId n
      else Some (candidate H seeds programId (Suc n), Suc n))"

definition deriver ::
  "(byte list \<Rightarrow> PublicKey) \<Rightarrow> (PublicKey \<Rightarrow> bool) \<Rightarrow> byte list list \<Rightarrow> PublicKey
   \<Rightarrow> (PublicKey \<times> nat) option" where
  "deriver H K seeds programId = deriveFrom H K seeds programId 255"

section \<open>Shapes of runs\<close>

text \<open>
  What leaves the second \<open>try\<close> block of a handler: a failed address derivation, or the
  shared submit-and-confirm tail for some request.
\<close>

definition bodyOf :: "env \<Rightarrow> event list \<times> thrown option \<Rightarrow> bool" where
  "bodyOf e body = ((\<exists>err. body = ([], Some err)) \<or> (\<exists>req. body = submitAndConfirm e req))"

text \<open>The six event sequences a guarded body can produce.\<close>

definition guardedRun :: "env \<Rightarrow> (jsstring \<Rightarrow> jsstring) \<Rightarrow> event list \<Rightarrow> bool" where
  "guardedRun e tags t =
     ((\<exists>err. t = [SetIsLoading True, ConsoleError, OnError (translateError tags err),
                  SetIsLoading False]) \<or>
      (\<exists>req err. rpc e req = Inl err \<and>
         t = [SetIsLoading True, Rpc req, ConsoleError, OnError (translateError tags err),
              SetIsLoading False]) \<or>
      (\<exists>req sig err. rpc e req = Inr sig \<and> confirmTransaction e sig Finalized = Inl err \<and>
         t = [SetIsLoading True, Rpc req, ConfirmTransaction sig Finalized, ConsoleError,
              OnError (translateError tags err), SetIsLoading False]) \<or>
      (\<exists>req sig err. rpc e req = Inr sig \<and>
         confirmTransaction e sig Finalized = Inr (Some err) \<and>
         t = [SetIsLoading True, Rpc req, ConfirmTransaction sig Finalized, ConsoleError,
              OnError (txFailedPrefix @ err), SetIsLoading False]) \<or>
      (\<exists>req sig. rpc e req = Inr sig \<and> confirmTransaction e sig Finalized = Inr None \<and>
         successCallbackThrows e sig = None \<and>
         t = [SetIsLoading True, Rpc req, ConfirmTransaction sig Finalized, OnSuccess sig,
              SetIsLoading False]) \<or>
      (\<exists>req sig err. rpc e req = Inr sig \<and> confirmTransaction e sig Finalized = Inr None \<and>
         successCallbackThrows e sig = Some err \<and>
         t = [SetIsLoading True, Rpc req, ConfirmTransaction sig Finalized, OnSuccess sig,
              ConsoleError, OnError (translateError tags err), SetIsLoading False]))"

text \<open>
  A run of a handler: two reports without a key, and with a key either one report before
  the busy flag is touched, or a guarded body.
\<close>

definition handlerRun :: "env \<Rightarrow> wallet \<Rightarrow> (jsstring \<Rightarrow> jsstring) \<Rightarrow> event list \<Rightarrow> bool" where
  "handlerRun e w tags t =
     (publicKey w = None \<and> t = [OnError walletNotConnectedMsg, OnError walletNotConnectedMsg] \<or>
      publicKey w \<noteq> None \<and> ((\<exists>m. t = [OnError m]) \<or> guardedRun e tags t))"

text \<open>Whether \<open>isLoading\<close>, starting from \<open>b\<close>, is set at every network call of a run.\<close>

fun busyWhileNetwork :: "bool \<Rightarrow> event list \<Rightarrow> bool" where
  "busyWhileNetwork b [] = True"
| "busyWhileNetwork b (SetIsLoading v # es) = busyWhileNetwork v es"
| "busyWhileNetwork b (Rpc req # es) = (b \<and> busyWhileNetwork b es)"
| "busyWhileNetwork b (ConfirmTransaction s c # es) = (b \<and> busyWhileNetwork b es)"
| "busyWhileNetwork b (ev # es) = busyWhileNetwork b es"

section \<open>A sample environment\<close>

text \<open>
  Concrete inputs on which the theorems below are exercised: three strings parse as keys,
  the deriver returns the concatenated seeds with nonce 255, the network accepts and
  confirms every transaction, and the success callback returns normally.
\<close>

definition sampleKey :: "nat \<Rightarrow> PublicKey" where
  "sampleKey n = PublicKey (replicate 32 (of_nat n))"

definition sampleEnv :: env where
  "sampleEnv =
     \<lparr>newPublicKey = (\<lambda>s.
         if s = js ''task'' then Inr (sampleKey 1)
         else if s = js ''recipient'' then Inr (sampleKey 2)
         else if s = js ''wallet'' then Inr (sampleKey 3)
         else Inl (newError (js ''Invalid public key input''))),
      findProgramAddressSync = (\<lambda>seeds programId. Inr (PublicKey (concat seeds), 255)),
      PROGRAM_ID = sampleKey 9,
      rpc = (\<lambda>req. Inr (js ''sig'')),
      confirmTransaction = (\<lambda>sig c. Inr None),
      successCallbackThrows = (\<lambda>sig. None)\<rparr>"

definition sampleWallet :: wallet where
  "sampleWallet = \<lparr>publicKey = Some (sampleKey 3), signTransaction = True\<rparr>"

definition sampleProps :: accept_props where
  "sampleProps =
     \<lparr>taskAccountPDAString = js ''task'', recipientPublicKeyString = js ''recipient''\<rparr>"

text \<open>
  A sample test environment: the program reports the Config account as already in use,
  the fetched account stores the expected admin, and keys are rendered injectively.
\<close>

definition sampleTestEnv :: test_env where
  "sampleTestEnv =
     \<lparr>adminPublicKey = sampleKey 4, daoTreasuryAddress = sampleKey 5,
      governanceTokenMint = sampleKey 6, adminSigner = sampleKey 4,
      initializeProgram = (\<lambda>call.
        Inl \<lparr>instanceofError = True,
             toString = js ''SendTransactionError: custom program error: 0x0''\<rparr>),
      fetchProgramConfig = (\<lambda>key. Inr \<lparr>admin = sampleKey 4\<rparr>),
      toBase58 = (\<lambda>key. map (\<lambda>b. of_nat (unat b)) (toBuffer key))\<rparr>"

text \<open>
  A sample environment of the creation test: the deriver returns the concatenated seeds
  with nonce 255, and the clock reads 1700000000000 milliseconds.
\<close>

definition sampleCreateEnv :: create_env where
  "sampleCreateEnv =
     \<lparr>deriveAddress = (\<lambda>seeds programId. Inr (PublicKey (concat seeds), 255)),
      workspaceProgramId = sampleKey 9, consignerKey = sampleKey 4, dateNow = 1700000000000,
      getBalance = (\<lambda>key. Inr 5000000000),
      getMinimumBalanceForRentExemption = (\<lambda>size. Inr 1920960)\<rparr>"

text \<open>
  A sample hash and private-key test for the deriver: the hash keeps the first 32 bytes,
  and exactly the candidates whose tenth byte is 255 have a private key.
\<close>

definition sampleHash :: "byte list \<Rightarrow> PublicKey" where
  "sampleHash bs = PublicKey (take 32 bs)"

definition sampleOnCurve :: "PublicKey \<Rightarrow> bool" where
  "sampleOnCurve k = (case drop 9 (toBuffer k) of [] \<Rightarrow> False | b # bs \<Rightarrow> b = 255)"

section \<open>Facts about the string functions\<close>

lemma startsWith_iff: "startsWith s p \<longleftrightarrow> (\<exists>r. s = p @ r)"
  by (induction s p rule: startsWith.induct) auto

lemma indexOfFrom_first:
  "k \<le> length s \<Longrightarrow> startsWith (drop k s) p \<Longrightarrow> \<forall>j<k. \<not> startsWith (drop j s) p
   \<Longrightarrow> indexOfFrom s p i = int (i + k)"
proof (induction s arbitrary: i k)
  case Nil
  then show ?case by (cases p) auto
next
  case (Cons c cs)
  show ?case
  proof (cases k)
    case 0
    with Cons.prems show ?thesis by simp
  next
    case (Suc k')
    with Cons.prems have no: "\<not> startsWith (c # cs) p" by force
    have "\<forall>j<k'. \<not> startsWith (drop j cs) p"
      using Cons.prems(3) Suc by (metis Suc_less_eq drop_Suc_Cons)
    with Cons.IH[of k' "Suc i"] Cons.prems Suc no show ?thesis by simp
  qed
qed

lemma indexOfFrom_none:
  "\<forall>j\<le>length s. \<not> startsWith (drop j s) p \<Longrightarrow> indexOfFrom s p i = - 1"
proof (induction s arbitrary: i)
  case Nil
  then show ?case by (cases p) auto
next
  case (Cons c cs)
  from Cons.prems have no: "\<not> startsWith (c # cs) p" by force
  have "\<forall>j\<le>length cs. \<not> startsWith (drop j cs) p"
  proof (intro allI impI)
    fix j assume "j \<le> length cs"
    with Cons.prems have "\<not> startsWith (drop (Suc j) (c # cs)) p" by (metis Suc_le_mono length_Cons)
    then show "\<not> startsWith (drop j cs) p" by simp
  qed
  with Cons.IH no show ?case by simp
qed

lemma includes_js_iff: "includes_js s p \<longleftrightarrow> (\<exists>a b. s = a @ p @ b)"
proof
  assume inc: "includes_js s p"
  have "\<exists>j\<le>length s. startsWith (drop j s) p"
  proof (rule ccontr)
    assume "\<not> ?thesis"
    then have "indexOfFrom s p 0 = - 1" by (intro indexOfFrom_none) blast
    with inc show False by (simp add: includes_js_def indexOf_def)
  qed
  then obtain j r where "j \<le> length s" "drop j s = p @ r" by (auto simp: startsWith_iff)
  then have "s = take j s @ p @ r" by (metis append_take_drop_id)
  then show "\<exists>a b. s = a @ p @ b" by blast
next
  assume "\<exists>a b. s = a @ p @ b"
  then obtain a b where s: "s = a @ p @ b" by blast
  define P where "P = (\<lambda>j. j \<le> length s \<and> startsWith (drop j s) p)"
  have "P (length a)" by (simp add: P_def s startsWith_iff)
  then have least: "P (LEAST j. P j)" by (rule LeastI)
  have min: "\<And>j. j < (LEAST j. P j) \<Longrightarrow> \<not> P j" by (rule not_less_Least)
  have "indexOfFrom s p 0 = int (0 + (LEAST j. P j))"
  proof (rule indexOfFrom_first)
    show "(LEAST j. P j) \<le> length s" "startsWith (drop (LEAST j. P j) s) p"
      using least by (simp_all add: P_def)
    show "\<forall>j<LEAST j. P j. \<not> startsWith (drop j s) p"
    proof (intro allI impI)
      fix j assume lt: "j < (LEAST j. P j)"
      from least have "(LEAST j. P j) \<le> length s" by (simp add: P_def)
      with lt have "j \<le> length s" by simp
      moreover from min[OF lt] have "\<not> (j \<le> length s \<and> startsWith (drop j s) p)"
        by (simp add: P_def)
      ultimately show "\<not> startsWith (drop j s) p" by simp
    qed
  qed
  then show "includes_js s p" by (simp add: includes_js_def indexOf_def)
qed

lemma substring_after_first:
  assumes "s = a @ p @ r" and "\<forall>j<length a. \<not> startsWith (drop j s) p"
  shows "substring s (indexOf s p + int (length p)) = r"
proof -
  have "indexOfFrom s p 0 = int (0 + length a)"
    by (rule indexOfFrom_first) (use assms in \<open>simp_all add: startsWith_iff\<close>)
  then show ?thesis by (simp add: indexOf_def substring_def assms(1))
qed

lemma scanLogs_marker:
  "\<forall>l\<in>set pre. \<not> includes_js l sunpathErrorMarker \<Longrightarrow> includes_js log sunpathErrorMarker \<Longrightarrow>
   scanLogs tags m (pre @ log # post) =
     tags (substring log (indexOf log sunpathErrorMarker + int (length sunpathErrorMarker)))"
  by (induction pre arbitrary: m) auto

section \<open>The error translator\<close>

lemma no_earlier_occurrence:
  assumes "\<not> includes_js (a @ butlast p) p" and "j < length a"
  shows "\<not> startsWith (drop j (a @ p @ r)) p"
proof
  assume "startsWith (drop j (a @ p @ r)) p"
  then obtain x where x: "drop j (a @ p @ r) = p @ x" by (auto simp: startsWith_iff)
  have "p \<noteq> []"
  proof
    assume "p = []"
    then have "a @ butlast p = a @ p @ []" by simp
    then have "includes_js (a @ butlast p) p" unfolding includes_js_iff by blast
    with assms(1) show False by simp
  qed
  then have "(butlast p @ [last p]) @ r = p @ r" by simp
  then have p: "butlast p @ last p # r = p @ r" by simp
  let ?d = "drop j a @ butlast p"
  have len: "length p \<le> length ?d" using assms(2) by simp
  have "drop j (a @ p @ r) = ?d @ (last p # r)"
    using assms(2) p by simp
  with x have "take (length p) (p @ x) = take (length p) (?d @ (last p # r))" by simp
  then have "take (length p) ?d = p" using len by simp
  then have "\<exists>y. ?d = p @ y" by (metis append_take_drop_id)
  then obtain y where y: "drop j a @ butlast p = p @ y" by blast
  have "a @ butlast p = take j a @ (drop j a @ butlast p)" by simp
  also have "\<dots> = take j a @ p @ y" by (simp only: y)
  finally have "a @ butlast p = take j a @ p @ y" .
  then have "includes_js (a @ butlast p) p" unfolding includes_js_iff by blast
  with assms(1) show False by simp
qed

lemma scanLogs_first_marker:
  assumes "\<forall>l\<in>set pre. \<not> includes_js l sunpathErrorMarker"
      and "\<not> includes_js (a @ butlast sunpathErrorMarker) sunpathErrorMarker"
  shows "scanLogs tags m (pre @ (a @ sunpathErrorMarker @ raw) # post) = tags raw"
proof -
  let ?log = "a @ sunpathErrorMarker @ raw"
  have inc: "includes_js ?log sunpathErrorMarker" unfolding includes_js_iff by blast
  have "substring ?log (indexOf ?log sunpathErrorMarker + int (length sunpathErrorMarker)) = raw"
    by (rule substring_after_first[OF refl]) (use assms(2) no_earlier_occurrence in blast)
  with scanLogs_marker[OF assms(1) inc] show ?thesis by simp
qed

text \<open>Without a marker line the loop keeps its last assignment.\<close>

lemma scanLogs_no_marker:
  assumes "\<forall>l\<in>set ls. \<not> includes_js l sunpathErrorMarker"
  shows "scanLogs tags m ls =
     (let hits = filter (\<lambda>l. includes_js l errorMarker \<or> includes_js l programFailedMarker) ls
      in if hits = [] then m
         else if includes_js (last hits) errorMarker then last hits else programFailedMsg)"
  using assms
proof (induction ls arbitrary: m)
  case Nil
  then show ?case by simp
next
  case (Cons l ls)
  then show ?case by (simp add: Let_def)
qed

lemmas marker_defs = sunpathErrorMarker_def errorMarker_def programFailedMarker_def js_def
lemmas string_defs = includes_js_def indexOf_def substring_def

lemma startsWithE: "startsWith s p \<Longrightarrow> (\<And>r. s = p @ r \<Longrightarrow> P) \<Longrightarrow> P"
  by (auto simp: startsWith_iff)

lemma acceptTags_table:
  "(startsWith raw (js ''NotTaskConsigner'') \<longrightarrow> acceptTags raw = acceptNotTaskConsignerMsg) \<and>
   (startsWith raw (js ''TaskNotOpen'') \<longrightarrow> acceptTags raw = acceptTaskNotOpenMsg) \<and>
   (startsWith raw (js ''TaskExpired'') \<longrightarrow> acceptTags raw = taskExpiredMsg) \<and>
   (startsWith raw (js ''InvalidRecipient'') \<longrightarrow> acceptTags raw = invalidRecipientMsg)"
  by (auto simp: acceptTags_def js_def elim!: startsWithE)

lemma rejectTags_table:
  "(startsWith raw (js ''NotTaskConsigner'') \<longrightarrow> rejectTags raw = rejectNotTaskConsignerMsg) \<and>
   (startsWith raw (js ''TaskNotOpen'') \<longrightarrow> rejectTags raw = rejectTaskNotOpenMsg) \<and>
   (startsWith raw (js ''TaskExpired'') \<longrightarrow> rejectTags raw = taskExpiredMsg)"
  by (auto simp: rejectTags_def js_def elim!: startsWithE)

lemma reclaimTags_table:
  "(startsWith raw (js ''NotConsigner'') \<longrightarrow> reclaimTags raw = reclaimNotConsignerMsg) \<and>
   (startsWith raw (js ''CannotReclaimFunds'') \<longrightarrow> reclaimTags raw = cannotReclaimFundsMsg) \<and>
   (startsWith raw (js ''DenialLockupActive'') \<longrightarrow> reclaimTags raw = denialLockupActiveMsg)"
  by (auto simp: reclaimTags_def js_def elim!: startsWithE)

text \<open>
  Claim C10. When the first log line that contains \<open>SunpathError::\<close> carries, after the
  first occurrence of the marker, a text that starts with none of the tags an invoker
  translates, the failure callback of that invoker receives this text unchanged: the
  lines before it and after it, and the thrown value's own message, play no part.
\<close>

theorem unmatched_tag_surfaces_raw_substring:
  assumes "\<forall>l\<in>set pre. \<not> includes_js l sunpathErrorMarker"
      and "\<not> includes_js (a @ butlast sunpathErrorMarker) sunpathErrorMarker"
      and "error = \<lparr>message = m, logs = Some (pre @ (a @ sunpathErrorMarker @ raw) # post)\<rparr>"
  shows "(\<not> startsWith raw (js ''NotTaskConsigner'') \<and> \<not> startsWith raw (js ''TaskNotOpen'') \<and>
          \<not> startsWith raw (js ''TaskExpired'') \<and> \<not> startsWith raw (js ''InvalidRecipient'')
          \<longrightarrow> catchBlock acceptTags (Some error) = [ConsoleError, OnError raw]) \<and>
         (\<not> startsWith raw (js ''NotTaskConsigner'') \<and> \<not> startsWith raw (js ''TaskNotOpen'') \<and>
          \<not> startsWith raw (js ''TaskExpired'')
          \<longrightarrow> catchBlock rejectTags (Some error) = [ConsoleError, OnError raw]) \<and>
         (\<not> startsWith raw (js ''NotConsigner'') \<and> \<not> startsWith raw (js ''CannotReclaimFunds'') \<and>
          \<not> startsWith raw (js ''DenialLockupActive'')
          \<longrightarrow> catchBlock reclaimTags (Some error) = [ConsoleError, OnError raw])"
proof -
  have scan: "translateError tags error = tags raw" for tags
    using scanLogs_first_marker[OF assms(1,2)] by (simp add: translateError_def assms(3))
  show ?thesis
    by (simp add: catchBlock_def scan acceptTags_def rejectTags_def reclaimTags_def)
qed

theorem unmatched_tag_surfaces_raw_substring_witness:
  "catchBlock acceptTags (Some \<lparr>message = Some (js ''failed''), logs = Some
     [js ''Program log: Error: x'', js ''Program log: SunpathError::DenialLockupActive.'',
      js ''Program log: SunpathError::TaskExpired'']\<rparr>)
     = [ConsoleError, OnError (js ''DenialLockupActive.'')] \<and>
   catchBlock rejectTags (Some \<lparr>message = Some (js ''failed''), logs = Some
     [js ''Program log: Error: x'', js ''Program log: SunpathError::DenialLockupActive.'',
      js ''Program log: SunpathError::TaskExpired'']\<rparr>)
     = [ConsoleError, OnError (js ''DenialLockupActive.'')] \<and>
   catchBlock reclaimTags (Some \<lparr>message = Some (js ''failed''), logs = Some
     [js ''Program log: Error: x'', js ''Program log: SunpathError::InvalidRecipient'',
      js ''Program log: SunpathError::NotConsigner'']\<rparr>)
     = [ConsoleError, OnError (js ''InvalidRecipient'')]"
  using unmatched_tag_surfaces_raw_substring
      [of "[js ''Program log: Error: x'']" "js ''Program log: ''" _ "Some (js ''failed'')"
          "js ''DenialLockupActive.''" "[js ''Program log: SunpathError::TaskExpired'']", OF _ _ refl]
    unmatched_tag_surfaces_raw_substring
      [of "[js ''Program log: Error: x'']" "js ''Program log: ''" _ "Some (js ''failed'')"
          "js ''InvalidRecipient''" "[js ''Program log: SunpathError::NotConsigner'']", OF _ _ refl]
  by (simp add: marker_defs string_defs)

text \<open>
  Claim C1, as amended. The first log line containing \<open>SunpathError::\<close> wins wherever it
  stands: the text after the marker's first occurrence goes through the invoker's own tag
  chain, which maps each tag it knows, matched as a prefix, to its localized message.
  Without such a line the last line that contains \<open>Error:\<close> or
  \<open>Program failed to complete\<close> decides: it is the message itself when it contains
  \<open>Error:\<close>, and otherwise the fixed generic message stands. With no such line either,
  or with no logs, the message is the thrown value's own non-empty message, else the
  unknown-error default.
\<close>

theorem translateError_scan_order:
  "((\<forall>l\<in>set pre. \<not> includes_js l sunpathErrorMarker) \<and>
    \<not> includes_js (a @ butlast sunpathErrorMarker) sunpathErrorMarker
    \<longrightarrow> translateError tags
          \<lparr>message = m, logs = Some (pre @ (a @ sunpathErrorMarker @ raw) # post)\<rparr> = tags raw) \<and>
   ((\<forall>l\<in>set ls. \<not> includes_js l sunpathErrorMarker)
    \<longrightarrow> translateError tags \<lparr>message = m, logs = Some ls\<rparr> =
         (let hits = filter (\<lambda>l. includes_js l errorMarker \<or> includes_js l programFailedMarker) ls
          in if hits \<noteq> [] then
               (if includes_js (last hits) errorMarker then last hits else programFailedMsg)
             else (case m of None \<Rightarrow> unknownErrorMsg
                   | Some s \<Rightarrow> if s = [] then unknownErrorMsg else s))) \<and>
   translateError tags \<lparr>message = m, logs = None\<rparr> =
     (case m of None \<Rightarrow> unknownErrorMsg | Some s \<Rightarrow> if s = [] then unknownErrorMsg else s) \<and>
   (startsWith raw (js ''NotTaskConsigner'') \<longrightarrow>
      acceptTags raw = acceptNotTaskConsignerMsg \<and> rejectTags raw = rejectNotTaskConsignerMsg) \<and>
   (startsWith raw (js ''TaskNotOpen'') \<longrightarrow>
      acceptTags raw = acceptTaskNotOpenMsg \<and> rejectTags raw = rejectTaskNotOpenMsg) \<and>
   (startsWith raw (js ''TaskExpired'') \<longrightarrow>
      acceptTags raw = taskExpiredMsg \<and> rejectTags raw = taskExpiredMsg) \<and>
   (startsWith raw (js ''InvalidRecipient'') \<longrightarrow> acceptTags raw = invalidRecipientMsg) \<and>
   (startsWith raw (js ''NotConsigner'') \<longrightarrow> reclaimTags raw = reclaimNotConsignerMsg) \<and>
   (startsWith raw (js ''CannotReclaimFunds'') \<longrightarrow> reclaimTags raw = cannotReclaimFundsMsg) \<and>
   (startsWith raw (js ''DenialLockupActive'') \<longrightarrow> reclaimTags raw = denialLockupActiveMsg)"
proof -
  have marker: "translateError tags
          \<lparr>message = m, logs = Some (pre @ (a @ sunpathErrorMarker @ raw) # post)\<rparr> = tags raw"
    if "\<forall>l\<in>set pre. \<not> includes_js l sunpathErrorMarker"
      and "\<not> includes_js (a @ butlast sunpathErrorMarker) sunpathErrorMarker"
    using scanLogs_first_marker[OF that] by (simp add: translateError_def)
  have nomarker: "translateError tags \<lparr>message = m, logs = Some ls\<rparr> =
         (let hits = filter (\<lambda>l. includes_js l errorMarker \<or> includes_js l programFailedMarker) ls
          in if hits \<noteq> [] then
               (if includes_js (last hits) errorMarker then last hits else programFailedMsg)
             else (case m of None \<Rightarrow> unknownErrorMsg
                   | Some s \<Rightarrow> if s = [] then unknownErrorMsg else s))"
    if "\<forall>l\<in>set ls. \<not> includes_js l sunpathErrorMarker"
    using scanLogs_no_marker[OF that]
    by (simp add: translateError_def initialMessage_def Let_def)
  have nologs: "translateError tags \<lparr>message = m, logs = None\<rparr> =
     (case m of None \<Rightarrow> unknownErrorMsg | Some s \<Rightarrow> if s = [] then unknownErrorMsg else s)"
    by (simp add: translateError_def initialMessage_def)
  from marker nomarker nologs acceptTags_table[of raw] rejectTags_table[of raw]
    reclaimTags_table[of raw]
  show ?thesis by blast
qed

theorem translateError_scan_order_witness:
  "translateError acceptTags \<lparr>message = Some (js ''rpc failed''), logs = Some
      [js ''Program log: Error: early'', js ''Program failed to complete'',
       js ''Program log: SunpathError::TaskNotOpen. Error Number: 6001'',
       js ''Program log: SunpathError::TaskExpired'']\<rparr> = acceptTaskNotOpenMsg \<and>
   translateError acceptTags \<lparr>message = Some (js ''rpc failed''), logs = Some
      [js ''Program log: Error: one'', js ''Program log: invoke'', js ''Transaction Error: two'',
       js ''Program consumed 100 units'']\<rparr> = js ''Transaction Error: two''"
  using translateError_scan_order
      [of "[js ''Program log: Error: early'', js ''Program failed to complete'']"
          "js ''Program log: ''" acceptTags "Some (js ''rpc failed'')"
          "js ''TaskNotOpen. Error Number: 6001''"
          "[js ''Program log: SunpathError::TaskExpired'']"
          "[js ''Program log: Error: one'', js ''Program log: invoke'',
            js ''Transaction Error: two'', js ''Program consumed 100 units'']"]
  by (simp add: marker_defs string_defs)

text \<open>
  The claim as written lets the first \<open>Error:\<close> line decide. With two such lines and
  no marker line the translator returns the second.
\<close>

theorem first_error_line_counterexample:
  "\<not> includes_js (js ''Error: first'') sunpathErrorMarker \<and>
   \<not> includes_js (js ''Error: second'') sunpathErrorMarker \<and>
   includes_js (js ''Error: first'') errorMarker \<and>
   translateError acceptTags
     \<lparr>message = Some (js ''rpc failed''),
      logs = Some [js ''Error: first'', js ''Error: second'']\<rparr> \<noteq> js ''Error: first''"
  by (simp add: translateError_def initialMessage_def marker_defs string_defs)

section \<open>Runs of the handlers\<close>

text \<open>The four ways the shared tail of the \<open>try\<close> blocks can end.\<close>

lemma submitAndConfirm_cases:
  "(\<exists>err. rpc e req = Inl err \<and> submitAndConfirm e req = ([Rpc req], Some err)) \<or>
   (\<exists>sig err. rpc e req = Inr sig \<and> confirmTransaction e sig Finalized = Inl err \<and>
      submitAndConfirm e req = ([Rpc req, ConfirmTransaction sig Finalized], Some err)) \<or>
   (\<exists>sig err. rpc e req = Inr sig \<and> confirmTransaction e sig Finalized = Inr (Some err) \<and>
      submitAndConfirm e req =
        ([Rpc req, ConfirmTransaction sig Finalized], Some (newError (txFailedPrefix @ err)))) \<or>
   (\<exists>sig. rpc e req = Inr sig \<and> confirmTransaction e sig Finalized = Inr None \<and>
      submitAndConfirm e req =
        ([Rpc req, ConfirmTransaction sig Finalized, OnSuccess sig], successCallbackThrows e sig))"
proof (cases "rpc e req")
  case (Inl err)
  then show ?thesis by (simp add: submitAndConfirm_def)
next
  case (Inr sig)
  show ?thesis
  proof (cases "confirmTransaction e sig Finalized")
    case (Inl err)
    with Inr show ?thesis by (simp add: submitAndConfirm_def)
  next
    case r: (Inr res)
    with Inr show ?thesis by (cases res) (simp_all add: submitAndConfirm_def)
  qed
qed

lemma acceptTry_body: "bodyOf e (acceptTry e pk a r)"
  unfolding bodyOf_def acceptTry_def by (simp split: sum.splits prod.splits) blast

lemma rejectTry_body: "bodyOf e (rejectTry e pk a)"
  unfolding bodyOf_def rejectTry_def by (simp split: sum.splits prod.splits) blast

lemma reclaimTry_body: "bodyOf e (reclaimTry e pk a)"
  unfolding bodyOf_def reclaimTry_def by (simp split: sum.splits prod.splits) blast

lemma translate_newError: "m \<noteq> [] \<Longrightarrow> translateError tags (newError m) = m"
  by (simp add: translateError_def newError_def initialMessage_def)

lemma translate_txFailed:
  "translateError tags (newError (txFailedPrefix @ err)) = txFailedPrefix @ err"
  by (rule translate_newError) (simp add: txFailedPrefix_def)

lemma guarded_run:
  assumes "bodyOf e body"
  shows "guardedRun e tags (guarded tags body)"
proof -
  from assms consider (derive) err where "body = ([], Some err)"
    | (submit) req where "body = submitAndConfirm e req"
    by (auto simp: bodyOf_def)
  then show ?thesis
  proof cases
    case derive
    then have "guarded tags body =
        [SetIsLoading True, ConsoleError, OnError (translateError tags err), SetIsLoading False]"
      by (simp add: guarded_def catchBlock_def)
    then show ?thesis unfolding guardedRun_def by blast
  next
    case submit
    from submitAndConfirm_cases[of e req] show ?thesis
    proof (elim disjE exE conjE)
      fix err assume r: "rpc e req = Inl err" and "submitAndConfirm e req = ([Rpc req], Some err)"
      with submit have "guarded tags body =
          [SetIsLoading True, Rpc req, ConsoleError, OnError (translateError tags err),
           SetIsLoading False]"
        by (simp add: guarded_def catchBlock_def)
      with r show ?thesis unfolding guardedRun_def by blast
    next
      fix sig err
      assume r: "rpc e req = Inr sig" "confirmTransaction e sig Finalized = Inl err"
        and "submitAndConfirm e req = ([Rpc req, ConfirmTransaction sig Finalized], Some err)"
      with submit have "guarded tags body =
          [SetIsLoading True, Rpc req, ConfirmTransaction sig Finalized, ConsoleError,
           OnError (translateError tags err), SetIsLoading False]"
        by (simp add: guarded_def catchBlock_def)
      with r show ?thesis unfolding guardedRun_def by blast
    next
      fix sig err
      assume r: "rpc e req = Inr sig" "confirmTransaction e sig Finalized = Inr (Some err)"
        and "submitAndConfirm e req =
           ([Rpc req, ConfirmTransaction sig Finalized], Some (newError (txFailedPrefix @ err)))"
      with submit have "guarded tags body =
          [SetIsLoading True, Rpc req, ConfirmTransaction sig Finalized, ConsoleError,
           OnError (txFailedPrefix @ err), SetIsLoading False]"
        by (simp add: guarded_def catchBlock_def translate_txFailed)
      with r show ?thesis unfolding guardedRun_def by blast
    next
      fix sig
      assume r: "rpc e req = Inr sig" "confirmTransaction e sig Finalized = Inr None"
        and s: "submitAndConfirm e req =
           ([Rpc req, ConfirmTransaction sig Finalized, OnSuccess sig], successCallbackThrows e sig)"
      show ?thesis
      proof (cases "successCallbackThrows e sig")
        case None
        with s submit have "guarded tags body =
            [SetIsLoading True, Rpc req, ConfirmTransaction sig Finalized, OnSuccess sig,
             SetIsLoading False]"
          by (simp add: guarded_def catchBlock_def)
        with r None show ?thesis unfolding guardedRun_def by blast
      next
        case (Some err)
        with s submit have "guarded tags body =
            [SetIsLoading True, Rpc req, ConfirmTransaction sig Finalized, OnSuccess sig,
             ConsoleError, OnError (translateError tags err), SetIsLoading False]"
          by (simp add: guarded_def catchBlock_def)
        with r Some show ?thesis unfolding guardedRun_def by blast
      qed
    qed
  qed
qed

lemma handleAcceptTask_shape:
  "handlerRun e w acceptTags (handleAcceptTask e w props)"
proof (cases "publicKey w")
  case None
  then show ?thesis by (simp add: handleAcceptTask_def getProvider_def handlerRun_def)
next
  case (Some pk)
  show ?thesis
  proof (cases "signTransaction w")
    case False
    with Some show ?thesis by (simp add: handleAcceptTask_def getProvider_def handlerRun_def)
  next
    case True
    show ?thesis
    proof (cases "acceptValidate e pk props")
      case (Inl err)
      with Some True show ?thesis
        by (simp add: handleAcceptTask_def getProvider_def handlerRun_def)
    next
      case (Inr keys)
      then obtain a r where "acceptValidate e pk props = Inr (a, r)" by (cases keys) simp
      with Some True have "handleAcceptTask e w props = guarded acceptTags (acceptTry e pk a r)"
        by (simp add: handleAcceptTask_def getProvider_def)
      with guarded_run[OF acceptTry_body] Some show ?thesis by (simp add: handlerRun_def)
    qed
  qed
qed

lemma handleRejectTask_shape:
  "handlerRun e w rejectTags (handleRejectTask e w s)"
proof (cases "publicKey w")
  case None
  then show ?thesis by (simp add: handleRejectTask_def getProvider_def handlerRun_def)
next
  case (Some pk)
  show ?thesis
  proof (cases "signTransaction w")
    case False
    with Some show ?thesis by (simp add: handleRejectTask_def getProvider_def handlerRun_def)
  next
    case True
    show ?thesis
    proof (cases "newPublicKey e s")
      case (Inl err)
      with Some True show ?thesis
        by (simp add: handleRejectTask_def getProvider_def handlerRun_def)
    next
      case (Inr a)
      with Some True have "handleRejectTask e w s = guarded rejectTags (rejectTry e pk a)"
        by (simp add: handleRejectTask_def getProvider_def)
      with guarded_run[OF rejectTry_body] Some show ?thesis by (simp add: handlerRun_def)
    qed
  qed
qed

lemma handleReclaimFunds_shape:
  "handlerRun e w reclaimTags (handleReclaimFunds e w s)"
proof (cases "publicKey w")
  case None
  then show ?thesis by (simp add: handleReclaimFunds_def getProvider_def handlerRun_def)
next
  case (Some pk)
  show ?thesis
  proof (cases "signTransaction w")
    case False
    with Some show ?thesis by (simp add: handleReclaimFunds_def getProvider_def handlerRun_def)
  next
    case True
    show ?thesis
    proof (cases "newPublicKey e s")
      case (Inl err)
      with Some True show ?thesis
        by (simp add: handleReclaimFunds_def getProvider_def handlerRun_def)
    next
      case (Inr a)
      with Some True have "handleReclaimFunds e w s = guarded reclaimTags (reclaimTry e pk a)"
        by (simp add: handleReclaimFunds_def getProvider_def)
      with guarded_run[OF reclaimTry_body] Some show ?thesis by (simp add: handlerRun_def)
    qed
  qed
qed

lemma handler_runs:
  assumes "t = handleAcceptTask e w props \<or> t = handleRejectTask e w s
           \<or> t = handleReclaimFunds e w s"
  shows "\<exists>tags. handlerRun e w tags t"
  using assms handleAcceptTask_shape handleRejectTask_shape handleReclaimFunds_shape by blast



subsection \<open>Simplification sets for the sample environment\<close>

lemmas sample_defs = sampleEnv_def sampleWallet_def sampleProps_def sampleKey_def
lemmas run_defs = handleAcceptTask_def handleRejectTask_def handleReclaimFunds_def getProvider_def
  acceptValidate_def acceptTry_def rejectTry_def reclaimTry_def submitAndConfirm_def guarded_def
  catchBlock_def configSeeds_def adminCounterSeeds_def Buffer_from_def systemProgramId_def
  template_def
lemmas click_defs = acceptClick_def rejectClick_def reclaimClick_def acceptDisabled_def
  taskButtonDisabled_def


section \<open>Clicks, validation and derived addresses\<close>

lemma click_runs:
  assumes "t = acceptClick e w props isLoading \<or> t = rejectClick e w s isLoading
           \<or> t = reclaimClick e w s isLoading"
  shows "(isLoading \<longrightarrow> t = []) \<and>
         (t = [] \<or> \<not> isLoading \<and> publicKey w \<noteq> None \<and>
            ((\<exists>m. t = [OnError m]) \<or> (\<exists>tags. guardedRun e tags t)))"
proof -
  have "t = [] \<and> isLoading \<or> t = [] \<and> \<not> isLoading \<or> \<not> isLoading \<and> publicKey w \<noteq> None \<and>
      (t = handleAcceptTask e w props \<or> t = handleRejectTask e w s \<or> t = handleReclaimFunds e w s)"
    using assms by (auto simp: click_defs split: if_splits)
  moreover have "(\<exists>m. t = [OnError m]) \<or> (\<exists>tags. guardedRun e tags t)"
    if "publicKey w \<noteq> None"
      "t = handleAcceptTask e w props \<or> t = handleRejectTask e w s \<or> t = handleReclaimFunds e w s"
    using handler_runs[OF that(2)] that(1) by (auto simp: handlerRun_def)
  ultimately show ?thesis by blast
qed




text \<open>Called without a key, which no click can do, a handler reports twice.\<close>

lemma handlers_without_key_report_twice:
  assumes "publicKey w = None"
  shows "handleAcceptTask e w props = [OnError walletNotConnectedMsg, OnError walletNotConnectedMsg]"
    and "handleRejectTask e w s = [OnError walletNotConnectedMsg, OnError walletNotConnectedMsg]"
    and "handleReclaimFunds e w s = [OnError walletNotConnectedMsg, OnError walletNotConnectedMsg]"
  using assms
  by (simp_all add: handleAcceptTask_def handleRejectTask_def handleReclaimFunds_def
      getProvider_def)








lemma busyWhileNetwork_split:
  "busyWhileNetwork b t \<Longrightarrow> t = pre @ ev # post \<Longrightarrow> isNetwork ev \<Longrightarrow> loadingAfter b pre"
proof (induction pre arbitrary: b t)
  case Nil
  then show ?case by (cases ev) auto
next
  case (Cons x pre)
  then show ?case by (cases x) auto
qed

lemma guardedRun_busy:
  assumes "guardedRun e tags t"
  shows "busyWhileNetwork b t \<and> \<not> loadingAfter b t \<and> last t = SetIsLoading False"
  using assms unfolding guardedRun_def
  by (elim disjE exE conjE) auto

text \<open>
  Claim C8. For each of the three buttons: while \<open>isLoading\<close> is set the button is
  disabled and a click does nothing; at every network call of a run the flag is set; a run
  that sets the flag ends by clearing it, on the success path and on every failure path;
  and after a run of an idle button the flag is clear.
\<close>

theorem busy_flag_brackets_submission:
  assumes "t = acceptClick e w props isLoading \<or> t = rejectClick e w s isLoading
           \<or> t = reclaimClick e w s isLoading"
  shows "(isLoading \<longrightarrow> t = []) \<and>
         acceptDisabled w props True \<and> taskButtonDisabled w s True \<and>
         (\<forall>pre ev post. t = pre @ ev # post \<and> isNetwork ev \<longrightarrow> loadingAfter isLoading pre) \<and>
         (SetIsLoading True \<in> set t \<longrightarrow> last t = SetIsLoading False) \<and>
         (\<not> isLoading \<longrightarrow> \<not> loadingAfter isLoading t)"
proof -
  from click_runs[OF assms] have idle: "isLoading \<longrightarrow> t = []" by blast
  from click_runs[OF assms] consider (disabled) "t = []"
    | (early) m where "t = [OnError m]"
    | (guarded) tags where "guardedRun e tags t"
    by blast
  then have run: "busyWhileNetwork isLoading t \<and>
      (SetIsLoading True \<in> set t \<longrightarrow> last t = SetIsLoading False) \<and>
      (\<not> isLoading \<longrightarrow> \<not> loadingAfter isLoading t)"
  proof cases
    case disabled
    then show ?thesis by simp
  next
    case early
    then show ?thesis by simp
  next
    case guarded
    from guardedRun_busy[OF guarded, of isLoading] show ?thesis by blast
  qed
  then have "\<forall>pre ev post. t = pre @ ev # post \<and> isNetwork ev \<longrightarrow> loadingAfter isLoading pre"
    using busyWhileNetwork_split by blast
  with idle run show ?thesis by (simp add: acceptDisabled_def taskButtonDisabled_def)
qed

theorem busy_flag_brackets_submission_witness:
  "acceptClick sampleEnv sampleWallet sampleProps True = [] \<and>
   loadingAfter False [SetIsLoading True] \<and>
   last (rejectClick (sampleEnv\<lparr>rpc := \<lambda>req. Inl \<lparr>message = Some (js ''failed''), logs = None\<rparr>\<rparr>)
        sampleWallet (js ''task'') False) = SetIsLoading False \<and>
   \<not> loadingAfter False (reclaimClick sampleEnv sampleWallet (js ''task'') False)"
proof -
  let ?e = "sampleEnv\<lparr>rpc := \<lambda>req. Inl \<lparr>message = Some (js ''failed''), logs = None\<rparr>\<rparr>"
  let ?req = "\<lparr>instruction = RejectTask,
           accounts =
             [(''taskAccount'', sampleKey 1), (''consignerWallet'', sampleKey 3),
              (''config'', PublicKey (concat configSeeds)),
              (''adminActionCounter'', PublicKey (concat (adminCounterSeeds (sampleKey 3)))),
              (''systemProgram'', systemProgramId)]\<rparr>"
  let ?t = "rejectClick ?e sampleWallet (js ''task'') False"
  have shape: "?t = [SetIsLoading True] @ Rpc ?req # drop 2 ?t" "isNetwork (Rpc ?req)"
    "SetIsLoading True \<in> set ?t"
    by (simp_all add: sample_defs run_defs click_defs js_def)
  from busy_flag_brackets_submission
         [where t = "acceptClick sampleEnv sampleWallet sampleProps True" and e = sampleEnv
            and w = sampleWallet and props = sampleProps and isLoading = True]
  have "acceptClick sampleEnv sampleWallet sampleProps True = []" by blast
  moreover
  from busy_flag_brackets_submission
         [where t = ?t and e = ?e and w = sampleWallet and s = "js ''task''"
            and isLoading = False] shape
  have "loadingAfter False [SetIsLoading True] \<and> last ?t = SetIsLoading False" by blast
  moreover
  from busy_flag_brackets_submission
         [where t = "reclaimClick sampleEnv sampleWallet (js ''task'') False" and e = sampleEnv
            and w = sampleWallet and s = "js ''task''" and isLoading = False]
  have "\<not> loadingAfter False (reclaimClick sampleEnv sampleWallet (js ''task'') False)"
    by blast
  ultimately show ?thesis by blast
qed

lemma acceptValidate_bad:
  assumes "taskAccountPDAString props = [] \<or> recipientPublicKeyString props = [] \<or>
           (\<exists>err. newPublicKey e (taskAccountPDAString props) = Inl err) \<or>
           (\<exists>err. newPublicKey e (recipientPublicKeyString props) = Inl err) \<or>
           newPublicKey e (recipientPublicKeyString props) = Inr pk"
  shows "\<exists>err. acceptValidate e pk props = Inl err"
  using assms by (auto simp: acceptValidate_def split: sum.splits)

text \<open>
  Claim C4. When the task address or the recipient address is empty or does not parse,
  or the recipient parses to the connected wallet's key, a run of \<open>handleAcceptTask\<close>
  consists of calls of the failure callback only: nothing is submitted, no confirmation
  is awaited and the busy flag is not touched. With a connected wallet it is a single
  call, whose message starts with the malformed-key text.
\<close>

theorem accept_rejects_bad_input_locally:
  assumes "taskAccountPDAString props = [] \<or> recipientPublicKeyString props = [] \<or>
           (\<exists>err. newPublicKey e (taskAccountPDAString props) = Inl err) \<or>
           (\<exists>err. newPublicKey e (recipientPublicKeyString props) = Inl err) \<or>
           (\<exists>k. newPublicKey e (recipientPublicKeyString props) = Inr k \<and> publicKey w = Some k)"
  shows "handleAcceptTask e w props \<noteq> [] \<and>
         (\<forall>ev\<in>set (handleAcceptTask e w props). isOnError ev) \<and>
         (publicKey w \<noteq> None \<and> signTransaction w \<longrightarrow>
            (\<exists>m. handleAcceptTask e w props = [OnError (invalidKeyPrefix @ m)]))"
proof (cases "publicKey w")
  case None
  then show ?thesis by (simp add: handleAcceptTask_def getProvider_def)
next
  case (Some pk)
  with assms have "\<exists>err. acceptValidate e pk props = Inl err"
    by (intro acceptValidate_bad) auto
  then obtain err where "acceptValidate e pk props = Inl err" ..
  with Some show ?thesis by (simp add: handleAcceptTask_def getProvider_def)
qed

theorem accept_rejects_bad_input_locally_witness:
  "handleAcceptTask sampleEnv sampleWallet
     \<lparr>taskAccountPDAString = js ''task'', recipientPublicKeyString = js ''wallet''\<rparr>
     = [OnError (invalidKeyPrefix @ sameAddressMsg)] \<and>
   handleAcceptTask sampleEnv sampleWallet
     \<lparr>taskAccountPDAString = js ''not a key'', recipientPublicKeyString = js ''recipient''\<rparr>
     = [OnError (invalidKeyPrefix @ js ''Invalid public key input'')] \<and>
   handleAcceptTask sampleEnv sampleWallet
     \<lparr>taskAccountPDAString = js ''task'', recipientPublicKeyString = []\<rparr>
     = [OnError (invalidKeyPrefix @ requiredFieldsMsg)]"
proof -
  let ?same = "\<lparr>taskAccountPDAString = js ''task'', recipientPublicKeyString = js ''wallet''\<rparr>"
  let ?bad = "\<lparr>taskAccountPDAString = js ''not a key'', recipientPublicKeyString = js ''recipient''\<rparr>"
  let ?none = "\<lparr>taskAccountPDAString = js ''task'', recipientPublicKeyString = []\<rparr>"
  have connected: "publicKey sampleWallet \<noteq> None \<and> signTransaction sampleWallet"
    by (simp add: sample_defs)
  have same: "\<exists>k. newPublicKey sampleEnv (recipientPublicKeyString ?same) = Inr k
                \<and> publicKey sampleWallet = Some k"
    by (simp add: sample_defs js_def)
  have bad: "\<exists>err. newPublicKey sampleEnv (taskAccountPDAString ?bad) = Inl err"
    by (simp add: sample_defs js_def)
  have none: "recipientPublicKeyString ?none = []" by simp
  from accept_rejects_bad_input_locally[of ?same sampleEnv sampleWallet] same connected
  obtain m1 where "handleAcceptTask sampleEnv sampleWallet ?same = [OnError (invalidKeyPrefix @ m1)]"
    by blast
  then have r1: "handleAcceptTask sampleEnv sampleWallet ?same
      = [OnError (invalidKeyPrefix @ sameAddressMsg)]"
    by (simp add: sample_defs run_defs js_def newError_def)
  from accept_rejects_bad_input_locally[of ?bad sampleEnv sampleWallet] bad connected
  obtain m2 where "handleAcceptTask sampleEnv sampleWallet ?bad = [OnError (invalidKeyPrefix @ m2)]"
    by blast
  then have r2: "handleAcceptTask sampleEnv sampleWallet ?bad
      = [OnError (invalidKeyPrefix @ js ''Invalid public key input'')]"
    by (simp add: sample_defs run_defs js_def newError_def)
  from accept_rejects_bad_input_locally[of ?none sampleEnv sampleWallet] none connected
  obtain m3 where "handleAcceptTask sampleEnv sampleWallet ?none = [OnError (invalidKeyPrefix @ m3)]"
    by blast
  then have r3: "handleAcceptTask sampleEnv sampleWallet ?none
      = [OnError (invalidKeyPrefix @ requiredFieldsMsg)]"
    by (simp add: sample_defs run_defs js_def newError_def)
  from r1 r2 r3 show ?thesis by blast
qed

text \<open>
  Claim C5, as amended. Both acquirers return a context exactly when the wallet has a key
  and can sign, and the context carries that key. Without a context the acquirer of the
  button components calls the failure callback once, with the not-connected message; the
  acquirer of the hook \<open>useSolanaProgram\<close> reports nothing besides its \<open>null\<close>
  result.
\<close>

theorem provider_acquirers:
  "((\<exists>p. snd (getProvider w) = Some p) \<longleftrightarrow> (\<exists>pk. publicKey w = Some pk) \<and> signTransaction w) \<and>
   snd (useSolanaProgram_getProvider w) = snd (getProvider w) \<and>
   (\<forall>p. snd (getProvider w) = Some p
      \<longrightarrow> publicKey w = Some (providerKey p) \<and> preflightCommitment p = Confirmed) \<and>
   fst (getProvider w) =
     (if snd (getProvider w) = None then [OnError walletNotConnectedMsg] else []) \<and>
   fst (useSolanaProgram_getProvider w) = []"
  by (cases "publicKey w")
     (auto simp: getProvider_def useSolanaProgram_getProvider_def)

theorem provider_acquirers_witness:
  "snd (getProvider sampleWallet)
     = Some \<lparr>providerKey = sampleKey 3, preflightCommitment = Confirmed\<rparr> \<and>
   publicKey sampleWallet = Some (sampleKey 3) \<and>
   fst (getProvider (sampleWallet\<lparr>signTransaction := False\<rparr>)) = [OnError walletNotConnectedMsg]"
proof -
  have p: "snd (getProvider sampleWallet)
     = Some \<lparr>providerKey = sampleKey 3, preflightCommitment = Confirmed\<rparr>"
    by (simp add: getProvider_def sampleWallet_def)
  have n: "snd (getProvider (sampleWallet\<lparr>signTransaction := False\<rparr>)) = None"
    by (simp add: getProvider_def sampleWallet_def)
  from provider_acquirers[of sampleWallet] p
  have "publicKey sampleWallet = Some (sampleKey 3)" by fastforce
  moreover from provider_acquirers[of "sampleWallet\<lparr>signTransaction := False\<rparr>"] n
  have "fst (getProvider (sampleWallet\<lparr>signTransaction := False\<rparr>))
          = [OnError walletNotConnectedMsg]"
    by simp
  ultimately show ?thesis using p by blast
qed

text \<open>
  The claim as written has an error surfaced whenever no context is produced. The hook's
  acquirer returns \<open>null\<close> for a wallet without a key and calls no callback.
\<close>

theorem hook_surfaces_no_error_counterexample:
  "snd (useSolanaProgram_getProvider \<lparr>publicKey = None, signTransaction = True\<rparr>) = None \<and>
   filter isOnError (fst (useSolanaProgram_getProvider \<lparr>publicKey = None, signTransaction = True\<rparr>))
     = []"
  by (simp add: useSolanaProgram_getProvider_def)

lemma length_leBytes: "length (leBytes n v) = n"
  by (induction n arbitrary: v) auto

lemma leValue_leBytes: "leValue (leBytes n v) = v mod 256 ^ n"
proof (induction n arbitrary: v)
  case 0
  then show ?case by simp
next
  case (Suc n)
  have "unat (of_nat (v mod 256) :: byte) = v mod 256"
    by (simp add: unat_of_nat)
  then have "leValue (leBytes (Suc n) v) = v mod 256 + 256 * (v div 256 mod 256 ^ n)"
    by (simp add: Suc.IH)
  also have "\<dots> = v mod (256 * 256 ^ n)"
    by (simp add: mod_mult2_eq)
  finally show ?case by simp
qed

lemma taskAccountSeeds_le8:
  assumes "taskId < 2 ^ 64"
  shows "\<exists>bs. taskAccountSeeds consigner taskId
            = Inr [Buffer_from ''task_account'', toBuffer consigner, bs]
          \<and> length bs = 8 \<and> leValue bs = taskId"
proof -
  have "(256::nat) ^ 8 = 2 ^ 64" by simp
  with assms have small: "taskId < 256 ^ 8" by simp
  then have "taskAccountSeeds consigner taskId
      = Inr [Buffer_from ''task_account'', toBuffer consigner, leBytes 8 taskId]"
    by (simp add: taskAccountSeeds_def toArrayLike_le8_def)
  moreover have "leValue (leBytes 8 taskId) = taskId"
    using small by (simp only: leValue_leBytes mod_less)
  ultimately show ?thesis using length_leBytes[of 8 taskId] by blast
qed

lemma submitAndConfirm_request:
  "Rpc req \<in> set (fst (submitAndConfirm e r)) \<Longrightarrow> req = r"
  by (auto simp: submitAndConfirm_def split: sum.splits option.splits)

lemma guarded_request:
  "Rpc req \<in> set (guarded tags body) \<Longrightarrow> Rpc req \<in> set (fst body)"
  by (auto simp: guarded_def catchBlock_def split: option.splits)

lemma accept_request_accounts:
  assumes "Rpc req \<in> set (handleAcceptTask e w props)"
  shows "\<exists>pk cfg n ctr m. publicKey w = Some pk \<and>
           findProgramAddressSync e [Buffer_from ''config_v2''] (PROGRAM_ID e) = Inr (cfg, n) \<and>
           findProgramAddressSync e [Buffer_from ''admin_counter'', toBuffer pk] (PROGRAM_ID e)
             = Inr (ctr, m) \<and>
           map_of (accounts req) ''config'' = Some cfg \<and>
           map_of (accounts req) ''adminActionCounter'' = Some ctr"
proof -
  from assms obtain pk a r where pk: "publicKey w = Some pk"
    and "Rpc req \<in> set (guarded acceptTags (acceptTry e pk a r))"
    by (auto simp: handleAcceptTask_def getProvider_def
        split: option.splits sum.splits prod.splits if_splits)
  then have "Rpc req \<in> set (fst (acceptTry e pk a r))" by (intro guarded_request)
  then show ?thesis using pk
    by (auto simp: acceptTry_def configSeeds_def adminCounterSeeds_def
        split: sum.splits prod.splits dest!: submitAndConfirm_request)
qed

lemma reject_request_accounts:
  assumes "Rpc req \<in> set (handleRejectTask e w s)"
  shows "\<exists>pk cfg n ctr m. publicKey w = Some pk \<and>
           findProgramAddressSync e [Buffer_from ''config_v2''] (PROGRAM_ID e) = Inr (cfg, n) \<and>
           findProgramAddressSync e [Buffer_from ''admin_counter'', toBuffer pk] (PROGRAM_ID e)
             = Inr (ctr, m) \<and>
           map_of (accounts req) ''config'' = Some cfg \<and>
           map_of (accounts req) ''adminActionCounter'' = Some ctr"
proof -
  from assms obtain pk a where pk: "publicKey w = Some pk"
    and "Rpc req \<in> set (guarded rejectTags (rejectTry e pk a))"
    by (auto simp: handleRejectTask_def getProvider_def
        split: option.splits sum.splits prod.splits if_splits)
  then have "Rpc req \<in> set (fst (rejectTry e pk a))" by (intro guarded_request)
  then show ?thesis using pk
    by (auto simp: rejectTry_def configSeeds_def adminCounterSeeds_def
        split: sum.splits prod.splits dest!: submitAndConfirm_request)
qed

lemma reclaim_request_accounts:
  assumes "Rpc req \<in> set (handleReclaimFunds e w s)"
  shows "\<exists>cfg n. findProgramAddressSync e [Buffer_from ''config_v2''] (PROGRAM_ID e) = Inr (cfg, n) \<and>
           map_of (accounts req) ''config'' = Some cfg \<and>
           map_of (accounts req) ''adminActionCounter'' = None"
proof -
  from assms obtain pk a where pk: "publicKey w = Some pk"
    and "Rpc req \<in> set (guarded reclaimTags (reclaimTry e pk a))"
    by (auto simp: handleReclaimFunds_def getProvider_def
        split: option.splits sum.splits prod.splits if_splits)
  then have "Rpc req \<in> set (fst (reclaimTry e pk a))" by (intro guarded_request)
  then show ?thesis
    by (auto simp: reclaimTry_def configSeeds_def
        split: sum.splits prod.splits dest!: submitAndConfirm_request)
qed

lemma submitAndConfirm_starts: "\<exists>rest. fst (submitAndConfirm e req) = Rpc req # rest"
  by (simp add: submitAndConfirm_def split: sum.splits option.splits)

lemma guarded_submit_starts:
  "take 2 (guarded tags (submitAndConfirm e req)) = [SetIsLoading True, Rpc req]"
proof -
  from submitAndConfirm_starts obtain rest where "fst (submitAndConfirm e req) = Rpc req # rest"
    by blast
  then show ?thesis by (simp add: guarded_def)
qed

lemma guarded_throws:
  "guarded tags ([], Some err) =
     [SetIsLoading True, ConsoleError, OnError (translateError tags err), SetIsLoading False]"
  by (simp add: guarded_def catchBlock_def)

lemma accept_run_valid:
  assumes "publicKey w = Some pk" "signTransaction w"
    and "taskAccountPDAString props \<noteq> []" "recipientPublicKeyString props \<noteq> []"
    and "newPublicKey e (taskAccountPDAString props) = Inr task"
    and "newPublicKey e (recipientPublicKeyString props) = Inr recipient"
    and "recipient \<noteq> pk"
  shows "handleAcceptTask e w props = guarded acceptTags (acceptTry e pk task recipient)"
  using assms by (simp add: handleAcceptTask_def getProvider_def acceptValidate_def)

lemma accept_derives_and_submits:
  assumes "publicKey w = Some pk" "signTransaction w"
    and "taskAccountPDAString props \<noteq> []" "recipientPublicKeyString props \<noteq> []"
    and "newPublicKey e (taskAccountPDAString props) = Inr task"
    and "newPublicKey e (recipientPublicKeyString props) = Inr recipient"
    and "recipient \<noteq> pk"
  shows "(findProgramAddressSync e [Buffer_from ''config_v2''] (PROGRAM_ID e) = Inl err \<or>
          findProgramAddressSync e [Buffer_from ''config_v2''] (PROGRAM_ID e) = Inr (cfg, n) \<and>
          findProgramAddressSync e [Buffer_from ''admin_counter'', toBuffer pk] (PROGRAM_ID e)
            = Inl err
          \<longrightarrow> handleAcceptTask e w props =
                [SetIsLoading True, ConsoleError, OnError (translateError acceptTags err),
                 SetIsLoading False]) \<and>
         (findProgramAddressSync e [Buffer_from ''config_v2''] (PROGRAM_ID e) = Inr (cfg, n) \<and>
          findProgramAddressSync e [Buffer_from ''admin_counter'', toBuffer pk] (PROGRAM_ID e)
            = Inr (ctr, m)
          \<longrightarrow> take 2 (handleAcceptTask e w props) =
                [SetIsLoading True,
                 Rpc \<lparr>instruction = AcceptTask recipient,
                      accounts =
                        [(''taskAccount'', task), (''consignerWallet'', pk),
                         (''recipientAccount'', recipient), (''config'', cfg),
                         (''adminActionCounter'', ctr),
                         (''systemProgram'', systemProgramId)]\<rparr>])"
  unfolding accept_run_valid[OF assms]
  by (auto simp: acceptTry_def configSeeds_def adminCounterSeeds_def guarded_throws
      guarded_submit_starts)

lemma task_run_valid:
  assumes "publicKey w = Some pk" "signTransaction w" "newPublicKey e s = Inr task"
  shows "handleRejectTask e w s = guarded rejectTags (rejectTry e pk task)"
    and "handleReclaimFunds e w s = guarded reclaimTags (reclaimTry e pk task)"
  using assms by (simp_all add: handleRejectTask_def handleReclaimFunds_def getProvider_def)

lemma reject_derives_and_submits:
  assumes "publicKey w = Some pk" "signTransaction w" "newPublicKey e s = Inr task"
  shows "(findProgramAddressSync e [Buffer_from ''config_v2''] (PROGRAM_ID e) = Inl err \<or>
          findProgramAddressSync e [Buffer_from ''config_v2''] (PROGRAM_ID e) = Inr (cfg, n) \<and>
          findProgramAddressSync e [Buffer_from ''admin_counter'', toBuffer pk] (PROGRAM_ID e)
            = Inl err
          \<longrightarrow> handleRejectTask e w s =
                [SetIsLoading True, ConsoleError, OnError (translateError rejectTags err),
                 SetIsLoading False]) \<and>
         (findProgramAddressSync e [Buffer_from ''config_v2''] (PROGRAM_ID e) = Inr (cfg, n) \<and>
          findProgramAddressSync e [Buffer_from ''admin_counter'', toBuffer pk] (PROGRAM_ID e)
            = Inr (ctr, m)
          \<longrightarrow> take 2 (handleRejectTask e w s) =
                [SetIsLoading True,
                 Rpc \<lparr>instruction = RejectTask,
                      accounts =
                        [(''taskAccount'', task), (''consignerWallet'', pk), (''config'', cfg),
                         (''adminActionCounter'', ctr),
                         (''systemProgram'', systemProgramId)]\<rparr>])"
  unfolding task_run_valid(1)[OF assms]
  by (auto simp: rejectTry_def configSeeds_def adminCounterSeeds_def guarded_throws
      guarded_submit_starts)

lemma reclaim_derives_and_submits:
  assumes "publicKey w = Some pk" "signTransaction w" "newPublicKey e s = Inr task"
  shows "(findProgramAddressSync e [Buffer_from ''config_v2''] (PROGRAM_ID e) = Inl err
          \<longrightarrow> handleReclaimFunds e w s =
                [SetIsLoading True, ConsoleError, OnError (translateError reclaimTags err),
                 SetIsLoading False]) \<and>
         (findProgramAddressSync e [Buffer_from ''config_v2''] (PROGRAM_ID e) = Inr (cfg, n)
          \<longrightarrow> take 2 (handleReclaimFunds e w s) =
                [SetIsLoading True,
                 Rpc \<lparr>instruction = ReclaimTaskFunds,
                      accounts =
                        [(''taskAccount'', task), (''consignerWallet'', pk), (''config'', cfg),
                         (''systemProgram'', systemProgramId)]\<rparr>])"
  unfolding task_run_valid(2)[OF assms]
  by (auto simp: reclaimTry_def configSeeds_def guarded_throws guarded_submit_starts)

lemma leBytes_leValue: "leBytes (length bs) (leValue bs) = bs"
proof (induction bs)
  case Nil
  then show ?case by simp
next
  case (Cons b bs)
  have "unat b < 256" using unsigned_less[of b, where 'a = nat] by simp
  then have "(unat b + 256 * leValue bs) mod 256 = unat b"
    and "(unat b + 256 * leValue bs) div 256 = leValue bs"
    by simp_all
  with Cons.IH show ?case by simp
qed

lemma createTaskCall_derives:
  assumes "dateNow t < 2 ^ 64"
  shows "(length bs = 8 \<and> leValue bs = dateNow t \<and>
          deriveAddress t [Buffer_from ''task_account'', toBuffer (consignerKey t), bs] (workspaceProgramId t) = Inl err
          \<longrightarrow> createTaskCall t configKey = Inl err) \<and>
         (length bs = 8 \<and> leValue bs = dateNow t \<and>
          deriveAddress t [Buffer_from ''task_account'', toBuffer (consignerKey t), bs] (workspaceProgramId t) = Inr (key, bump) \<and>
          getBalance t (consignerKey t) = Inr balance \<and>
          getMinimumBalanceForRentExemption t 148 = Inr rent
          \<longrightarrow> createTaskCall t configKey =
                Inr \<lparr>callTaskId = dateNow t, callRewardAmount = 15000000,
                     callDurationSeconds = 3600, callTaskAccount = key,
                     callConsigner = consignerKey t, callConfig = configKey,
                     callSystemProgram = systemProgramId\<rparr>)"
proof -
  have "(256::nat) ^ 8 = 2 ^ 64" by simp
  with assms have small: "dateNow t < 256 ^ 8" by simp
  then have seeds: "taskAccountSeeds (consignerKey t) (dateNow t)
      = Inr [Buffer_from ''task_account'', toBuffer (consignerKey t), leBytes 8 (dateNow t)]"
    by (simp add: taskAccountSeeds_def toArrayLike_le8_def)
  have same: "bs = leBytes 8 (dateNow t)" if "length bs = 8" "leValue bs = dateNow t"
    using leBytes_leValue[of bs] that by simp
  show ?thesis
    by (auto simp: createTaskCall_def seeds dest!: same)
qed

lemma beforeConfigKey_derives:
  "(deriveAddress t [Buffer_from ''config_v2''] (workspaceProgramId t) = Inl err
      \<longrightarrow> beforeConfigKey t = Inl err) \<and>
   (deriveAddress t [Buffer_from ''config_v2''] (workspaceProgramId t) = Inr (key, bump)
      \<longrightarrow> beforeConfigKey t = Inr key)"
  by (simp add: beforeConfigKey_def configPdaSeed_def)

text \<open>
  Claim C2. Whatever the deriver computes: a handler that is past its validation derives
  the Config address from the single seed \<open>config_v2\<close> and, for accept and reject, the
  counter address from \<open>admin_counter\<close> followed by the bytes of the connected wallet's
  key; a derivation that throws ends the run with one report and no submission, and
  otherwise the request submitted names the derived addresses as \<open>config\<close> and
  \<open>adminActionCounter\<close>, the reclaim request naming no counter. Conversely every request
  in a run carries addresses derived so. The test derives its Config key from the same
  single seed, and the task account it submits from \<open>task_account\<close>, the consigner's key
  bytes and the eight bytes whose little-endian value is the task id.
\<close>

theorem documented_seed_schemes:
  "(Rpc req \<in> set (handleAcceptTask e w props) \<or> Rpc req \<in> set (handleRejectTask e w s)
    \<longrightarrow> (\<exists>pk cfg n ctr m. publicKey w = Some pk \<and>
           findProgramAddressSync e [Buffer_from ''config_v2''] (PROGRAM_ID e) = Inr (cfg, n) \<and>
           findProgramAddressSync e [Buffer_from ''admin_counter'', toBuffer pk] (PROGRAM_ID e)
             = Inr (ctr, m) \<and>
           map_of (accounts req) ''config'' = Some cfg \<and>
           map_of (accounts req) ''adminActionCounter'' = Some ctr)) \<and>
   (Rpc req \<in> set (handleReclaimFunds e w s)
    \<longrightarrow> (\<exists>cfg n. findProgramAddressSync e [Buffer_from ''config_v2''] (PROGRAM_ID e) = Inr (cfg, n) \<and>
           map_of (accounts req) ''config'' = Some cfg \<and>
           map_of (accounts req) ''adminActionCounter'' = None)) \<and>
   (taskId < 2 ^ 64
    \<longrightarrow> (\<exists>bs. taskAccountSeeds consigner taskId
                 = Inr [Buffer_from ''task_account'', toBuffer consigner, bs]
               \<and> length bs = 8 \<and> leValue bs = taskId)) \<and>
   Buffer_from ''config_v2'' = [0x63, 0x6F, 0x6E, 0x66, 0x69, 0x67, 0x5F, 0x76, 0x32] \<and>
   (publicKey w = Some key \<and> signTransaction w \<and>
    taskAccountPDAString props \<noteq> [] \<and> recipientPublicKeyString props \<noteq> [] \<and>
    newPublicKey e (taskAccountPDAString props) = Inr task \<and>
    newPublicKey e (recipientPublicKeyString props) = Inr recipient \<and> recipient \<noteq> key
    \<longrightarrow> (findProgramAddressSync e [Buffer_from ''config_v2''] (PROGRAM_ID e) = Inl err \<or>
          findProgramAddressSync e [Buffer_from ''config_v2''] (PROGRAM_ID e) = Inr (config, i) \<and>
          findProgramAddressSync e [Buffer_from ''admin_counter'', toBuffer key] (PROGRAM_ID e)
            = Inl err
          \<longrightarrow> handleAcceptTask e w props =
                [SetIsLoading True, ConsoleError, OnError (translateError acceptTags err),
                 SetIsLoading False]) \<and>
         (findProgramAddressSync e [Buffer_from ''config_v2''] (PROGRAM_ID e) = Inr (config, i) \<and>
          findProgramAddressSync e [Buffer_from ''admin_counter'', toBuffer key] (PROGRAM_ID e)
            = Inr (counter, j)
          \<longrightarrow> take 2 (handleAcceptTask e w props) =
                [SetIsLoading True,
                 Rpc \<lparr>instruction = AcceptTask recipient,
                      accounts =
                        [(''taskAccount'', task), (''consignerWallet'', key),
                         (''recipientAccount'', recipient), (''config'', config),
                         (''adminActionCounter'', counter),
                         (''systemProgram'', systemProgramId)]\<rparr>])) \<and>
   (publicKey w = Some key \<and> signTransaction w \<and> newPublicKey e s = Inr task
    \<longrightarrow> (findProgramAddressSync e [Buffer_from ''config_v2''] (PROGRAM_ID e) = Inl err \<or>
          findProgramAddressSync e [Buffer_from ''config_v2''] (PROGRAM_ID e) = Inr (config, i) \<and>
          findProgramAddressSync e [Buffer_from ''admin_counter'', toBuffer key] (PROGRAM_ID e)
            = Inl err
          \<longrightarrow> handleRejectTask e w s =
                [SetIsLoading True, ConsoleError, OnError (translateError rejectTags err),
                 SetIsLoading False]) \<and>
         (findProgramAddressSync e [Buffer_from ''config_v2''] (PROGRAM_ID e) = Inr (config, i) \<and>
          findProgramAddressSync e [Buffer_from ''admin_counter'', toBuffer key] (PROGRAM_ID e)
            = Inr (counter, j)
          \<longrightarrow> take 2 (handleRejectTask e w s) =
                [SetIsLoading True,
                 Rpc \<lparr>instruction = RejectTask,
                      accounts =
                        [(''taskAccount'', task), (''consignerWallet'', key),
                         (''config'', config), (''adminActionCounter'', counter),
                         (''systemProgram'', systemProgramId)]\<rparr>]) \<and>
         (findProgramAddressSync e [Buffer_from ''config_v2''] (PROGRAM_ID e) = Inl err
          \<longrightarrow> handleReclaimFunds e w s =
                [SetIsLoading True, ConsoleError, OnError (translateError reclaimTags err),
                 SetIsLoading False]) \<and>
         (findProgramAddressSync e [Buffer_from ''config_v2''] (PROGRAM_ID e) = Inr (config, i)
          \<longrightarrow> take 2 (handleReclaimFunds e w s) =
                [SetIsLoading True,
                 Rpc \<lparr>instruction = ReclaimTaskFunds,
                      accounts =
                        [(''taskAccount'', task), (''consignerWallet'', key),
                         (''config'', config), (''systemProgram'', systemProgramId)]\<rparr>])) \<and>
   (deriveAddress t [Buffer_from ''config_v2''] (workspaceProgramId t) = Inl err
    \<longrightarrow> beforeConfigKey t = Inl err) \<and>
   (deriveAddress t [Buffer_from ''config_v2''] (workspaceProgramId t) = Inr (config, i)
    \<longrightarrow> beforeConfigKey t = Inr config) \<and>
   (dateNow t < 2 ^ 64 \<and> length bytes = 8 \<and> leValue bytes = dateNow t
    \<longrightarrow> (deriveAddress t [Buffer_from ''task_account'', toBuffer (consignerKey t), bytes]
            (workspaceProgramId t) = Inl err
          \<longrightarrow> createTaskCall t configKey = Inl err) \<and>
         (deriveAddress t [Buffer_from ''task_account'', toBuffer (consignerKey t), bytes]
            (workspaceProgramId t) = Inr (taskAccount, bump) \<and>
          getBalance t (consignerKey t) = Inr balance \<and>
          getMinimumBalanceForRentExemption t 148 = Inr rent
          \<longrightarrow> createTaskCall t configKey =
                Inr \<lparr>callTaskId = dateNow t, callRewardAmount = 15000000,
                     callDurationSeconds = 3600, callTaskAccount = taskAccount,
                     callConsigner = consignerKey t, callConfig = configKey,
                     callSystemProgram = systemProgramId\<rparr>)) \<and>
   Buffer_from ''admin_counter'' =
     [0x61, 0x64, 0x6D, 0x69, 0x6E, 0x5F, 0x63, 0x6F, 0x75, 0x6E, 0x74, 0x65, 0x72] \<and>
   Buffer_from ''task_account'' =
     [0x74, 0x61, 0x73, 0x6B, 0x5F, 0x61, 0x63, 0x63, 0x6F, 0x75, 0x6E, 0x74]"
proof -
  have c1: "(Rpc req \<in> set (handleAcceptTask e w props) \<or> Rpc req \<in> set (handleRejectTask e w s)
    \<longrightarrow> (\<exists>pk cfg n ctr m. publicKey w = Some pk \<and>
           findProgramAddressSync e [Buffer_from ''config_v2''] (PROGRAM_ID e) = Inr (cfg, n) \<and>
           findProgramAddressSync e [Buffer_from ''admin_counter'', toBuffer pk] (PROGRAM_ID e)
             = Inr (ctr, m) \<and>
           map_of (accounts req) ''config'' = Some cfg \<and>
           map_of (accounts req) ''adminActionCounter'' = Some ctr))"
    using accept_request_accounts[of req e w props] reject_request_accounts[of req e w s]
    by blast
  have c2: "(Rpc req \<in> set (handleReclaimFunds e w s)
    \<longrightarrow> (\<exists>cfg n. findProgramAddressSync e [Buffer_from ''config_v2''] (PROGRAM_ID e) = Inr (cfg, n) \<and>
           map_of (accounts req) ''config'' = Some cfg \<and>
           map_of (accounts req) ''adminActionCounter'' = None))"
    using reclaim_request_accounts[of req e w s] by blast
  have c3: "(taskId < 2 ^ 64
    \<longrightarrow> (\<exists>bs. taskAccountSeeds consigner taskId
                 = Inr [Buffer_from ''task_account'', toBuffer consigner, bs]
               \<and> length bs = 8 \<and> leValue bs = taskId))"
    using taskAccountSeeds_le8[of taskId consigner] by blast
  have c4: "Buffer_from ''config_v2'' = [0x63, 0x6F, 0x6E, 0x66, 0x69, 0x67, 0x5F, 0x76, 0x32]"
    by (simp add: Buffer_from_def)
  have c5: "(publicKey w = Some key \<and> signTransaction w \<and>
    taskAccountPDAString props \<noteq> [] \<and> recipientPublicKeyString props \<noteq> [] \<and>
    newPublicKey e (taskAccountPDAString props) = Inr task \<and>
    newPublicKey e (recipientPublicKeyString props) = Inr recipient \<and> recipient \<noteq> key
    \<longrightarrow> (findProgramAddressSync e [Buffer_from ''config_v2''] (PROGRAM_ID e) = Inl err \<or>
          findProgramAddressSync e [Buffer_from ''config_v2''] (PROGRAM_ID e) = Inr (config, i) \<and>
          findProgramAddressSync e [Buffer_from ''admin_counter'', toBuffer key] (PROGRAM_ID e)
            = Inl err
          \<longrightarrow> handleAcceptTask e w props =
                [SetIsLoading True, ConsoleError, OnError (translateError acceptTags err),
                 SetIsLoading False]) \<and>
         (findProgramAddressSync e [Buffer_from ''config_v2''] (PROGRAM_ID e) = Inr (config, i) \<and>
          findProgramAddressSync e [Buffer_from ''admin_counter'', toBuffer key] (PROGRAM_ID e)
            = Inr (counter, j)
          \<longrightarrow> take 2 (handleAcceptTask e w props) =
                [SetIsLoading True,
                 Rpc \<lparr>instruction = AcceptTask recipient,
                      accounts =
                        [(''taskAccount'', task), (''consignerWallet'', key),
                         (''recipientAccount'', recipient), (''config'', config),
                         (''adminActionCounter'', counter),
                         (''systemProgram'', systemProgramId)]\<rparr>]))"
    using accept_derives_and_submits[of w key props e task recipient err config i counter j]
    by blast
  have c6: "(publicKey w = Some key \<and> signTransaction w \<and> newPublicKey e s = Inr task
    \<longrightarrow> (findProgramAddressSync e [Buffer_from ''config_v2''] (PROGRAM_ID e) = Inl err \<or>
          findProgramAddressSync e [Buffer_from ''config_v2''] (PROGRAM_ID e) = Inr (config, i) \<and>
          findProgramAddressSync e [Buffer_from ''admin_counter'', toBuffer key] (PROGRAM_ID e)
            = Inl err
          \<longrightarrow> handleRejectTask e w s =
                [SetIsLoading True, ConsoleError, OnError (translateError rejectTags err),
                 SetIsLoading False]) \<and>
         (findProgramAddressSync e [Buffer_from ''config_v2''] (PROGRAM_ID e) = Inr (config, i) \<and>
          findProgramAddressSync e [Buffer_from ''admin_counter'', toBuffer key] (PROGRAM_ID e)
            = Inr (counter, j)
          \<longrightarrow> take 2 (handleRejectTask e w s) =
                [SetIsLoading True,
                 Rpc \<lparr>instruction = RejectTask,
                      accounts =
                        [(''taskAccount'', task), (''consignerWallet'', key),
                         (''config'', config), (''adminActionCounter'', counter),
                         (''systemProgram'', systemProgramId)]\<rparr>]) \<and>
         (findProgramAddressSync e [Buffer_from ''config_v2''] (PROGRAM_ID e) = Inl err
          \<longrightarrow> handleReclaimFunds e w s =
                [SetIsLoading True, ConsoleError, OnError (translateError reclaimTags err),
                 SetIsLoading False]) \<and>
         (findProgramAddressSync e [Buffer_from ''config_v2''] (PROGRAM_ID e) = Inr (config, i)
          \<longrightarrow> take 2 (handleReclaimFunds e w s) =
                [SetIsLoading True,
                 Rpc \<lparr>instruction = ReclaimTaskFunds,
                      accounts =
                        [(''taskAccount'', task), (''consignerWallet'', key),
                         (''config'', config), (''systemProgram'', systemProgramId)]\<rparr>]))"
    using reject_derives_and_submits[of w key e s task err config i counter j]
      reclaim_derives_and_submits[of w key e s task err config i]
    by blast
  have c7: "(deriveAddress t [Buffer_from ''config_v2''] (workspaceProgramId t) = Inl err
    \<longrightarrow> beforeConfigKey t = Inl err)"
    using beforeConfigKey_derives[of t err config i] by blast
  have c8: "(deriveAddress t [Buffer_from ''config_v2''] (workspaceProgramId t) = Inr (config, i)
    \<longrightarrow> beforeConfigKey t = Inr config)"
    using beforeConfigKey_derives[of t err config i] by blast
  have c9: "(dateNow t < 2 ^ 64 \<and> length bytes = 8 \<and> leValue bytes = dateNow t
    \<longrightarrow> (deriveAddress t [Buffer_from ''task_account'', toBuffer (consignerKey t), bytes]
            (workspaceProgramId t) = Inl err
          \<longrightarrow> createTaskCall t configKey = Inl err) \<and>
         (deriveAddress t [Buffer_from ''task_account'', toBuffer (consignerKey t), bytes]
            (workspaceProgramId t) = Inr (taskAccount, bump) \<and>
          getBalance t (consignerKey t) = Inr balance \<and>
          getMinimumBalanceForRentExemption t 148 = Inr rent
          \<longrightarrow> createTaskCall t configKey =
                Inr \<lparr>callTaskId = dateNow t, callRewardAmount = 15000000,
                     callDurationSeconds = 3600, callTaskAccount = taskAccount,
                     callConsigner = consignerKey t, callConfig = configKey,
                     callSystemProgram = systemProgramId\<rparr>))"
    using createTaskCall_derives[of t bytes err configKey taskAccount bump balance rent]
    by blast
  have c10: "Buffer_from ''admin_counter'' =
     [0x61, 0x64, 0x6D, 0x69, 0x6E, 0x5F, 0x63, 0x6F, 0x75, 0x6E, 0x74, 0x65, 0x72]"
    by (simp add: Buffer_from_def)
  have c11: "Buffer_from ''task_account'' =
     [0x74, 0x61, 0x73, 0x6B, 0x5F, 0x61, 0x63, 0x63, 0x6F, 0x75, 0x6E, 0x74]"
    by (simp add: Buffer_from_def)
  show ?thesis
    by (intro conjI)
       (fact c1, fact c2, fact c3, fact c4, fact c5, fact c6, fact c7, fact c8, fact c9,
        fact c10, fact c11)
qed

lemma leBytes_numeral:
  "leBytes (numeral k) v = of_nat (v mod 256) # leBytes (pred_numeral k) (v div 256)"
  by (simp only: numeral_eq_Suc[of k] leBytes.simps)

theorem documented_seed_schemes_witness:
  "take 2 (handleAcceptTask sampleEnv sampleWallet sampleProps) =
     [SetIsLoading True,
      Rpc \<lparr>instruction = AcceptTask (sampleKey 2),
           accounts =
             [(''taskAccount'', sampleKey 1), (''consignerWallet'', sampleKey 3),
              (''recipientAccount'', sampleKey 2),
              (''config'', PublicKey (Buffer_from ''config_v2'')),
              (''adminActionCounter'',
               PublicKey (Buffer_from ''admin_counter'' @ toBuffer (sampleKey 3))),
              (''systemProgram'', systemProgramId)]\<rparr>] \<and>
   handleReclaimFunds
     (sampleEnv\<lparr>findProgramAddressSync := \<lambda>seeds programId. Inl (newError (js ''no nonce''))\<rparr>)
     sampleWallet (js ''task'') =
     [SetIsLoading True, ConsoleError,
      OnError (translateError reclaimTags (newError (js ''no nonce''))), SetIsLoading False] \<and>
   map_of (accounts
      \<lparr>instruction = RejectTask,
       accounts =
         [(''taskAccount'', sampleKey 1), (''consignerWallet'', sampleKey 3),
          (''config'', PublicKey (concat configSeeds)),
          (''adminActionCounter'', PublicKey (concat (adminCounterSeeds (sampleKey 3)))),
          (''systemProgram'', systemProgramId)]\<rparr>) ''adminActionCounter''
     = Some (PublicKey (Buffer_from ''admin_counter'' @ toBuffer (sampleKey 3))) \<and>
   taskAccountSeeds (sampleKey 3) 1700000000000
     = Inr [Buffer_from ''task_account'', toBuffer (sampleKey 3),
            [0x00, 0x68, 0xE5, 0xCF, 0x8B, 0x01, 0x00, 0x00]] \<and>
   leValue [0x00, 0x68, 0xE5, 0xCF, 0x8B, 0x01, 0x00, 0x00] = 1700000000000 \<and>
   beforeConfigKey sampleCreateEnv = Inr (PublicKey (Buffer_from ''config_v2'')) \<and>
   createTaskCall sampleCreateEnv (PublicKey (Buffer_from ''config_v2'')) =
     Inr \<lparr>callTaskId = 1700000000000, callRewardAmount = 15000000,
          callDurationSeconds = 3600,
          callTaskAccount =
            PublicKey (Buffer_from ''task_account'' @ toBuffer (sampleKey 4) @
                       [0x00, 0x68, 0xE5, 0xCF, 0x8B, 0x01, 0x00, 0x00]),
          callConsigner = sampleKey 4, callConfig = PublicKey (Buffer_from ''config_v2''),
          callSystemProgram = systemProgramId\<rparr>"
proof -
  let ?req = "\<lparr>instruction = RejectTask,
       accounts =
         [(''taskAccount'', sampleKey 1), (''consignerWallet'', sampleKey 3),
          (''config'', PublicKey (concat configSeeds)),
          (''adminActionCounter'', PublicKey (concat (adminCounterSeeds (sampleKey 3)))),
          (''systemProgram'', systemProgramId)]\<rparr>"
  let ?fail = "sampleEnv\<lparr>findProgramAddressSync :=
                  \<lambda>seeds programId. Inl (newError (js ''no nonce''))\<rparr>"
  let ?bytes = "[0x00, 0x68, 0xE5, 0xCF, 0x8B, 0x01, 0x00, 0x00] :: byte list"
  have sent: "Rpc ?req \<in> set (handleRejectTask sampleEnv sampleWallet (js ''task''))"
    by (simp add: sample_defs run_defs js_def)
  have wallet: "publicKey sampleWallet = Some (sampleKey 3)" "signTransaction sampleWallet"
    by (simp_all add: sample_defs)
  have inputs: "taskAccountPDAString sampleProps \<noteq> []"
    "recipientPublicKeyString sampleProps \<noteq> []"
    "newPublicKey sampleEnv (taskAccountPDAString sampleProps) = Inr (sampleKey 1)"
    "newPublicKey sampleEnv (recipientPublicKeyString sampleProps) = Inr (sampleKey 2)"
    "sampleKey 2 \<noteq> sampleKey 3"
    "newPublicKey ?fail (js ''task'') = Inr (sampleKey 1)"
    by (simp_all add: sample_defs js_def)
  have derived: "findProgramAddressSync sampleEnv [Buffer_from ''config_v2''] (PROGRAM_ID sampleEnv)
      = Inr (PublicKey (Buffer_from ''config_v2''), 255)"
    "findProgramAddressSync sampleEnv
        [Buffer_from ''admin_counter'', toBuffer (sampleKey 3)] (PROGRAM_ID sampleEnv)
      = Inr (PublicKey (Buffer_from ''admin_counter'' @ toBuffer (sampleKey 3)), 255)"
    "findProgramAddressSync ?fail [Buffer_from ''config_v2''] (PROGRAM_ID ?fail)
      = Inl (newError (js ''no nonce''))"
    by (simp_all add: sample_defs)
  have small: "(1700000000000::nat) < 2 ^ 64" "dateNow sampleCreateEnv < 2 ^ 64"
    by (simp_all add: sampleCreateEnv_def)
  have seeds: "taskAccountSeeds (sampleKey 3) 1700000000000
     = Inr [Buffer_from ''task_account'', toBuffer (sampleKey 3), ?bytes]"
    by (simp add: taskAccountSeeds_def toArrayLike_le8_def leBytes_numeral)
  have le: "length ?bytes = 8" "leValue ?bytes = dateNow sampleCreateEnv"
    by (simp_all add: sampleCreateEnv_def)
  have test: "deriveAddress sampleCreateEnv [Buffer_from ''config_v2'']
        (workspaceProgramId sampleCreateEnv) = Inr (PublicKey (Buffer_from ''config_v2''), 255)"
    "deriveAddress sampleCreateEnv
        [Buffer_from ''task_account'', toBuffer (consignerKey sampleCreateEnv), ?bytes]
        (workspaceProgramId sampleCreateEnv)
      = Inr (PublicKey (Buffer_from ''task_account'' @ toBuffer (sampleKey 4) @ ?bytes), 255)"
    "getBalance sampleCreateEnv (consignerKey sampleCreateEnv) = Inr 5000000000"
    "getMinimumBalanceForRentExemption sampleCreateEnv 148 = Inr 1920960"
    by (simp_all add: sampleCreateEnv_def)
  note accept = documented_seed_schemes
      [where e = sampleEnv and w = sampleWallet and props = sampleProps and s = "js ''task''"
         and req = ?req and key = "sampleKey 3" and task = "sampleKey 1"
         and recipient = "sampleKey 2" and config = "PublicKey (Buffer_from ''config_v2'')"
         and i = 255 and j = 255
         and counter = "PublicKey (Buffer_from ''admin_counter'' @ toBuffer (sampleKey 3))"
         and taskId = 1700000000000 and consigner = "sampleKey 3" and t = sampleCreateEnv
         and bytes = ?bytes and configKey = "PublicKey (Buffer_from ''config_v2'')"
         and taskAccount = "PublicKey (Buffer_from ''task_account'' @ toBuffer (sampleKey 4) @ ?bytes)"
         and bump = 255 and balance = 5000000000 and rent = 1920960]
  note reclaim = documented_seed_schemes
      [where e = ?fail and w = sampleWallet and s = "js ''task''" and key = "sampleKey 3"
         and task = "sampleKey 1" and err = "newError (js ''no nonce'')"]
  from accept[THEN conjunct2, THEN conjunct2, THEN conjunct2, THEN conjunct2, THEN conjunct1]
    wallet inputs derived
  have r1: "take 2 (handleAcceptTask sampleEnv sampleWallet sampleProps) =
     [SetIsLoading True,
      Rpc \<lparr>instruction = AcceptTask (sampleKey 2),
           accounts =
             [(''taskAccount'', sampleKey 1), (''consignerWallet'', sampleKey 3),
              (''recipientAccount'', sampleKey 2),
              (''config'', PublicKey (Buffer_from ''config_v2'')),
              (''adminActionCounter'',
               PublicKey (Buffer_from ''admin_counter'' @ toBuffer (sampleKey 3))),
              (''systemProgram'', systemProgramId)]\<rparr>]"
    by blast
  from reclaim[THEN conjunct2, THEN conjunct2, THEN conjunct2, THEN conjunct2, THEN conjunct2,
      THEN conjunct1]
    wallet inputs(6) derived(3)
  have r2: "handleReclaimFunds ?fail sampleWallet (js ''task'') =
     [SetIsLoading True, ConsoleError,
      OnError (translateError reclaimTags (newError (js ''no nonce''))), SetIsLoading False]"
    by blast
  from accept[THEN conjunct1] sent derived wallet
  have r3: "map_of (accounts ?req) ''adminActionCounter''
     = Some (PublicKey (Buffer_from ''admin_counter'' @ toBuffer (sampleKey 3)))"
    by fastforce
  from accept[THEN conjunct2, THEN conjunct2, THEN conjunct1] small(1) seeds
  have r4: "leValue ?bytes = 1700000000000" by fastforce
  from accept[THEN conjunct2, THEN conjunct2, THEN conjunct2, THEN conjunct2, THEN conjunct2,
      THEN conjunct2, THEN conjunct2, THEN conjunct1]
    test(1)
  have r5: "beforeConfigKey sampleCreateEnv = Inr (PublicKey (Buffer_from ''config_v2''))"
    by blast
  from accept[THEN conjunct2, THEN conjunct2, THEN conjunct2, THEN conjunct2,
      THEN conjunct2, THEN conjunct2, THEN conjunct2, THEN conjunct2, THEN conjunct1]
    small(2) le test
  have "createTaskCall sampleCreateEnv (PublicKey (Buffer_from ''config_v2'')) =
     Inr \<lparr>callTaskId = dateNow sampleCreateEnv, callRewardAmount = 15000000,
          callDurationSeconds = 3600,
          callTaskAccount =
            PublicKey (Buffer_from ''task_account'' @ toBuffer (sampleKey 4) @ ?bytes),
          callConsigner = consignerKey sampleCreateEnv,
          callConfig = PublicKey (Buffer_from ''config_v2''),
          callSystemProgram = systemProgramId\<rparr>"
    by blast
  then have r6: "createTaskCall sampleCreateEnv (PublicKey (Buffer_from ''config_v2'')) =
     Inr \<lparr>callTaskId = 1700000000000, callRewardAmount = 15000000,
          callDurationSeconds = 3600,
          callTaskAccount =
            PublicKey (Buffer_from ''task_account'' @ toBuffer (sampleKey 4) @ ?bytes),
          callConsigner = sampleKey 4, callConfig = PublicKey (Buffer_from ''config_v2''),
          callSystemProgram = systemProgramId\<rparr>"
    by (simp add: sampleCreateEnv_def)
  from r1 r2 r3 seeds r4 r5 r6 show ?thesis by (intro conjI)
qed

section \<open>Verifying an existing initialization\<close>

lemma initializeTest_already:
  assumes "initializeProgram t (initializeCall t configKey) = Inl error"
      and "alreadyInitialized error"
  shows "initializeTest t configKey =
     ([Initialize (initializeCall t configKey), WarnAlreadyInitialized, FetchConfig configKey],
      case fetchProgramConfig t configKey of
        Inl err \<Rightarrow> Throws err
      | Inr configAccount \<Rightarrow>
          if toBase58 t (admin configAccount) = toBase58 t (adminPublicKey t)
          then Passes else AssertionFails)"
  using assms by (simp add: initializeTest_def split: sum.splits)

text \<open>
  Claim C7. When the \<open>initializeProgram\<close> call of the test fails with an \<open>Error\<close>
  whose text carries one of the two already-in-use indications, the test does not rethrow
  it: it warns, fetches the Config account at the derived address, and passes exactly
  when the fetch succeeds and the stored admin renders to the same base-58 text as the
  expected admin, which for an injective rendering means that the two keys are equal. A
  different stored admin fails the assertion, and a failing fetch fails the test. That
  the program answers an existing Config account with such an error is the network's
  behaviour and enters as the first hypothesis.
\<close>

theorem already_initialized_is_verified:
  assumes "initializeProgram t (initializeCall t configKey) = Inl error"
      and "instanceofError error"
      and "includes_js (toString error) (js ''custom program error: 0x0'') \<or>
           includes_js (toString error) (js ''Account already in use'')"
  shows "fst (initializeTest t configKey) =
           [Initialize (initializeCall t configKey), WarnAlreadyInitialized,
            FetchConfig configKey] \<and>
         (snd (initializeTest t configKey) = Passes \<longleftrightarrow>
            (\<exists>cfg. fetchProgramConfig t configKey = Inr cfg \<and>
                   toBase58 t (admin cfg) = toBase58 t (adminPublicKey t))) \<and>
         (\<forall>cfg. fetchProgramConfig t configKey = Inr cfg \<and>
                toBase58 t (admin cfg) \<noteq> toBase58 t (adminPublicKey t)
            \<longrightarrow> snd (initializeTest t configKey) = AssertionFails) \<and>
         (\<forall>err. fetchProgramConfig t configKey = Inl err
            \<longrightarrow> snd (initializeTest t configKey) = Throws err) \<and>
         ((\<forall>a b. toBase58 t a = toBase58 t b \<longrightarrow> a = b) \<longrightarrow>
            (snd (initializeTest t configKey) = Passes \<longleftrightarrow>
               (\<exists>cfg. fetchProgramConfig t configKey = Inr cfg \<and> admin cfg = adminPublicKey t)))"
proof -
  from assms(2,3) have "alreadyInitialized error" by (simp add: alreadyInitialized_def)
  from initializeTest_already[OF assms(1) this] show ?thesis
    by (cases "fetchProgramConfig t configKey") auto
qed

lemma byte_code_unit_inj: "(of_nat (unat a) :: 16 word) = of_nat (unat b) \<Longrightarrow> a = b" for a b :: byte
proof -
  assume "(of_nat (unat a) :: 16 word) = of_nat (unat b)"
  then have eq: "(ucast a :: 16 word) = ucast b" by simp
  have up: "is_up (ucast :: byte \<Rightarrow> 16 word)" by (simp add: is_up)
  have "(ucast (ucast x :: 16 word) :: byte) = x" for x :: byte
    by (rule ucast_up_ucast_id[OF up])
  with eq show "a = b" by metis
qed

lemma sample_toBase58_inj:
  "toBase58 sampleTestEnv a = toBase58 sampleTestEnv b \<Longrightarrow> a = b"
proof -
  assume "toBase58 sampleTestEnv a = toBase58 sampleTestEnv b"
  then have "map (\<lambda>x. of_nat (unat x) :: 16 word) (toBuffer a)
           = map (\<lambda>x. of_nat (unat x)) (toBuffer b)"
    by (simp add: sampleTestEnv_def)
  moreover have "inj (\<lambda>x :: byte. of_nat (unat x) :: 16 word)"
    by (rule injI) (rule byte_code_unit_inj)
  ultimately have "toBuffer a = toBuffer b" by (simp add: inj_map_eq_map)
  then show "a = b" by (rule PublicKey.expand)
qed

theorem already_initialized_is_verified_witness:
  "fst (initializeTest sampleTestEnv (sampleKey 7)) =
     [Initialize (initializeCall sampleTestEnv (sampleKey 7)), WarnAlreadyInitialized,
      FetchConfig (sampleKey 7)] \<and>
   snd (initializeTest sampleTestEnv (sampleKey 7)) = Passes \<and>
   snd (initializeTest (sampleTestEnv\<lparr>fetchProgramConfig := \<lambda>key. Inr \<lparr>admin = sampleKey 5\<rparr>\<rparr>)
          (sampleKey 7)) = AssertionFails"
proof -
  let ?error = "\<lparr>instanceofError = True,
                 toString = js ''SendTransactionError: custom program error: 0x0''\<rparr>"
  let ?t = "sampleTestEnv\<lparr>fetchProgramConfig := \<lambda>key. Inr \<lparr>admin = sampleKey 5\<rparr>\<rparr>"
  have fails: "initializeProgram sampleTestEnv (initializeCall sampleTestEnv (sampleKey 7))
                 = Inl ?error"
    "initializeProgram ?t (initializeCall ?t (sampleKey 7)) = Inl ?error"
    by (simp_all add: sampleTestEnv_def)
  have isError: "instanceofError ?error" by simp
  have marked: "includes_js (toString ?error) (js ''custom program error: 0x0'') \<or>
                includes_js (toString ?error) (js ''Account already in use'')"
    by (simp add: includes_js_def indexOf_def js_def)
  have stored: "\<exists>cfg. fetchProgramConfig sampleTestEnv (sampleKey 7) = Inr cfg \<and>
                  admin cfg = adminPublicKey sampleTestEnv"
    by (simp add: sampleTestEnv_def)
  have other: "fetchProgramConfig ?t (sampleKey 7) = Inr \<lparr>admin = sampleKey 5\<rparr> \<and>
     toBase58 ?t (admin \<lparr>admin = sampleKey 5\<rparr>) \<noteq> toBase58 ?t (adminPublicKey ?t)"
    by (simp add: sampleTestEnv_def sampleKey_def)
  have inj: "\<forall>a b. toBase58 sampleTestEnv a = toBase58 sampleTestEnv b \<longrightarrow> a = b"
    using sample_toBase58_inj by blast
  from already_initialized_is_verified[OF fails(1) isError marked] inj stored
  have "fst (initializeTest sampleTestEnv (sampleKey 7)) =
     [Initialize (initializeCall sampleTestEnv (sampleKey 7)), WarnAlreadyInitialized,
      FetchConfig (sampleKey 7)] \<and>
   snd (initializeTest sampleTestEnv (sampleKey 7)) = Passes"
    by blast
  moreover from already_initialized_is_verified[OF fails(2) isError marked] other
  have "snd (initializeTest ?t (sampleKey 7)) = AssertionFails" by blast
  ultimately show ?thesis by blast
qed

section \<open>The address deriver is deterministic\<close>

lemma derives_functional:
  "derives H K seeds programId n r1 \<Longrightarrow> derives H K seeds programId n r2 \<Longrightarrow> r1 = r2"
proof (induction arbitrary: r2 rule: derives.induct)
  case (found n)
  from found.prems found.hyps show ?case by (cases rule: derives.cases) auto
next
  case (lower n r)
  from lower.prems lower.hyps(1) have "derives H K seeds programId n r2"
    by (cases rule: derives.cases) auto
  then show ?case by (rule lower.IH)
qed

lemma deriveFrom_derives:
  "deriveFrom H K seeds programId n = Some r \<longleftrightarrow> derives H K seeds programId n r"
proof (induction n)
  case 0
  show ?case
  proof
    assume "deriveFrom H K seeds programId 0 = Some r"
    then show "derives H K seeds programId 0 r"
      by (auto split: if_splits intro: derives.found)
  next
    assume "derives H K seeds programId 0 r"
    then show "deriveFrom H K seeds programId 0 = Some r"
      by (cases rule: derives.cases) auto
  qed
next
  case (Suc n)
  show ?case
  proof
    assume "deriveFrom H K seeds programId (Suc n) = Some r"
    then show "derives H K seeds programId (Suc n) r"
      using Suc.IH by (auto split: if_splits intro: derives.found derives.lower)
  next
    assume "derives H K seeds programId (Suc n) r"
    then show "deriveFrom H K seeds programId (Suc n) = Some r"
      using Suc.IH by (cases rule: derives.cases) auto
  qed
qed

lemma derives_result:
  "derives H K seeds programId n r \<Longrightarrow>
   snd r \<le> n \<and> fst r = candidate H seeds programId (snd r) \<and> \<not> K (fst r)"
  by (induction rule: derives.induct) auto

text \<open>
  Claim C9. Two runs of the deriver on the same seeds and the same program identity
  yield the same address and the same nonce: the derivation relation is single-valued.
  The function \<open>deriver\<close> computes exactly the results of the relation from nonce 255,
  and a result is a candidate without a private key at a nonce of one byte.
\<close>

theorem deriver_deterministic:
  "(derives H K seeds programId n ra \<and> derives H K seeds' programId' n rb \<and>
      seeds' = seeds \<and> programId' = programId \<longrightarrow> ra = rb) \<and>
   (deriver H K seeds programId = Some r \<longleftrightarrow> derives H K seeds programId 255 r) \<and>
   (deriver H K seeds programId = Some (address, nonce) \<longrightarrow>
      nonce \<le> 255 \<and> address = candidate H seeds programId nonce \<and> \<not> K address)"
proof -
  have "ra = rb" if "derives H K seeds programId n ra" "derives H K seeds programId n rb"
    using that by (rule derives_functional)
  moreover have iff: "deriver H K seeds programId = Some r \<longleftrightarrow> derives H K seeds programId 255 r"
    for r
    by (simp add: deriver_def deriveFrom_derives)
  moreover have "nonce \<le> 255 \<and> address = candidate H seeds programId nonce \<and> \<not> K address"
    if "deriver H K seeds programId = Some (address, nonce)"
  proof -
    from that iff have "derives H K seeds programId 255 (address, nonce)" by blast
    from derives_result[OF this] show ?thesis by auto
  qed
  ultimately show ?thesis by blast
qed

theorem deriver_deterministic_witness:
  "derives sampleHash sampleOnCurve configSeeds (sampleKey 9) 255
     (candidate sampleHash configSeeds (sampleKey 9) 254, 254) \<and>
   deriver sampleHash sampleOnCurve configSeeds (sampleKey 9)
     = Some (candidate sampleHash configSeeds (sampleKey 9) 254, 254) \<and>
   \<not> sampleOnCurve (candidate sampleHash configSeeds (sampleKey 9) 254)"
proof -
  let ?c = "candidate sampleHash configSeeds (sampleKey 9)"
  have on: "sampleOnCurve (?c (Suc 254))"
    by (simp add: sampleOnCurve_def candidate_def sampleHash_def configSeeds_def
        Buffer_from_def sampleKey_def)
  have off: "\<not> sampleOnCurve (?c 254)"
    by (simp add: sampleOnCurve_def candidate_def sampleHash_def configSeeds_def
        Buffer_from_def sampleKey_def)
  from off have "derives sampleHash sampleOnCurve configSeeds (sampleKey 9) 254 (?c 254, 254)"
    by (rule derives.found)
  with on have "derives sampleHash sampleOnCurve configSeeds (sampleKey 9) (Suc 254) (?c 254, 254)"
    by (rule derives.lower)
  then have run: "derives sampleHash sampleOnCurve configSeeds (sampleKey 9) 255 (?c 254, 254)"
    by simp
  note inst = deriver_deterministic
      [where H = sampleHash and K = sampleOnCurve and seeds = configSeeds
         and programId = "sampleKey 9" and n = 255 and ra = "(?c 254, 254)"
         and rb = "(?c 254, 254)" and seeds' = configSeeds and programId' = "sampleKey 9"
         and r = "(?c 254, 254)" and address = "?c 254" and nonce = 254]
  from inst run have "deriver sampleHash sampleOnCurve configSeeds (sampleKey 9)
     = Some (?c 254, 254)"
    by blast
  moreover from inst this have "\<not> sampleOnCurve (?c 254)" by blast
  ultimately show ?thesis using run by blast
qed

end
